theory Spec2Isabelle
  imports Complex_Main
begin

text \<open>
  The irrigation controller of ag360: the threshold service (\<open>computeThreshold\<close>) and
  the controller service (\<open>handleTelemetryMessage\<close> with \<open>publishManyFormats\<close>), with
  the two Mongoose models the controller writes. Line numbers are those of the source file
  that holds thresholdService.js followed by controllerService.js.
\<close>

section \<open>JavaScript values\<close>

text \<open>
  The controller and the threshold service compute with JavaScript numbers. The model
  works on finite numbers only and computes exactly: a number is a \<^typ>\<open>real\<close>, a
  millisecond timestamp an \<^typ>\<open>int\<close>. A property that is \<open>null\<close>,
  \<open>undefined\<close> or absent is \<open>None\<close>.
\<close>

definition nullish :: "'a option \<Rightarrow> 'a \<Rightarrow> 'a" where
  \<comment> \<open>\<^verbatim>\<open>a ?? d\<close>\<close>
  "nullish a d = (case a of None \<Rightarrow> d | Some v \<Rightarrow> v)"

definition truthy_str :: "string option \<Rightarrow> bool" where
  \<comment> \<open>a string property is truthy when present and non-empty\<close>
  "truthy_str a = (case a of None \<Rightarrow> False | Some s \<Rightarrow> s \<noteq> [])"

definition truthy_num :: "real option \<Rightarrow> bool" where
  \<comment> \<open>a numeric property is truthy when present and non-zero\<close>
  "truthy_num a = (case a of None \<Rightarrow> False | Some x \<Rightarrow> x \<noteq> 0)"

definition or_str :: "string option \<Rightarrow> string option \<Rightarrow> string option" where
  \<comment> \<open>\<^verbatim>\<open>a || b\<close> on string properties\<close>
  "or_str a b = (if truthy_str a then a else b)"

definition or_num :: "real option \<Rightarrow> real option \<Rightarrow> real option" where
  \<comment> \<open>\<^verbatim>\<open>a || b\<close> on numeric properties\<close>
  "or_num a b = (if truthy_num a then a else b)"

definition Math_round :: "real \<Rightarrow> int" where
  \<comment> \<open>\<^verbatim>\<open>Math.round\<close>: the nearest integer, a half rounds up\<close>
  "Math_round x = \<lfloor>x + 1 / 2\<rfloor>"

definition toLowerCase_char :: "char \<Rightarrow> char" where
  "toLowerCase_char c =
     (case map_of (zip ''ABCDEFGHIJKLMNOPQRSTUVWXYZ'' ''abcdefghijklmnopqrstuvwxyz'') c of
        None \<Rightarrow> c
      | Some l \<Rightarrow> l)"

definition toLowerCase :: "string \<Rightarrow> string" where
  \<comment> \<open>\<^verbatim>\<open>String.prototype.toLowerCase\<close> on ASCII text\<close>
  "toLowerCase s = map toLowerCase_char s"

fun digits :: "nat \<Rightarrow> string" where
  "digits n =
     (if n < 10 then [''0123456789'' ! n]
      else digits (n div 10) @ [''0123456789'' ! (n mod 10)])"

definition show_int :: "int \<Rightarrow> string" where
  \<comment> \<open>an integer inside a template literal\<close>
  "show_int i = (if i < 0 then CHR ''-'' # digits (nat (- i)) else digits (nat i))"

section \<open>thresholdService.computeThreshold\<close>

record CropProfile =
  name :: "string option"
  Kc :: "real option"
  targetFraction :: "real option"
  rootDepth_cm :: "real option"
  fieldCapacityPct :: "real option"
  wiltingPointPct :: "real option"
  hysteresisPct :: "real option"

record forecast =
  daily :: "real option list"   \<comment> \<open>\<^verbatim>\<open>daily[i].rain\<close>; the empty list when \<^verbatim>\<open>daily\<close> is absent\<close>
  current_temp :: "real option" \<comment> \<open>\<^verbatim>\<open>current?.temp\<close>\<close>

record telemetry =
  soilPct :: "real option"
  temperature :: "real option"
  humidity :: "real option"

record details =
  d_ETo :: real
  d_ETc :: real
  d_rain24 :: real
  d_rainEff :: real
  d_deltaPct :: real
  d_baselinePct :: real
  d_fieldCapacityPct :: real
  d_wiltingPointPct :: real
  d_rootDepth_cm :: real
  d_Kc :: real
  d_hysteresisPct :: real

record ThresholdResult =
  threshold_on :: int
  threshold_off :: int
  details :: details

definition spread :: "CropProfile \<Rightarrow> CropProfile \<Rightarrow> CropProfile" where
  \<comment> \<open>\<^verbatim>\<open>{ ...fromDb, ...profile }\<close>: a key of \<open>profile\<close> wins over the same key of \<open>fromDb\<close>\<close>
  "spread fromDb profile =
     \<lparr> name = (case name profile of None \<Rightarrow> name fromDb | Some v \<Rightarrow> Some v),
       Kc = (case Kc profile of None \<Rightarrow> Kc fromDb | Some v \<Rightarrow> Some v),
       targetFraction =
         (case targetFraction profile of None \<Rightarrow> targetFraction fromDb | Some v \<Rightarrow> Some v),
       rootDepth_cm =
         (case rootDepth_cm profile of None \<Rightarrow> rootDepth_cm fromDb | Some v \<Rightarrow> Some v),
       fieldCapacityPct =
         (case fieldCapacityPct profile of None \<Rightarrow> fieldCapacityPct fromDb | Some v \<Rightarrow> Some v),
       wiltingPointPct =
         (case wiltingPointPct profile of None \<Rightarrow> wiltingPointPct fromDb | Some v \<Rightarrow> Some v),
       hysteresisPct =
         (case hysteresisPct profile of None \<Rightarrow> hysteresisPct fromDb | Some v \<Rightarrow> Some v) \<rparr>"

definition mergeProfile :: "(string \<Rightarrow> CropProfile option) \<Rightarrow> CropProfile \<Rightarrow> CropProfile" where
  \<comment> \<open>lines 13-23: the profile is completed from the crop collection when it has a name
      and no (or a zero) \<open>Kc\<close>; \<open>findOne\<close> is \<open>None\<close> when nothing is found or the
      lookup is rejected\<close>
  "mergeProfile findOne cropProfile =
     (if truthy_str (name cropProfile) \<and> \<not> truthy_num (Kc cropProfile)
      then (case findOne (toLowerCase (nullish (name cropProfile) [])) of
              Some fromDb \<Rightarrow> spread fromDb cropProfile
            | None \<Rightarrow> cropProfile)
      else cropProfile)"

definition forecast_rain24 :: "forecast option \<Rightarrow> real" where
  \<comment> \<open>lines 33-36\<close>
  "forecast_rain24 fc =
     (case fc of
        None \<Rightarrow> 0
      | Some f \<Rightarrow> (case daily f of [] \<Rightarrow> 0 | r # _ \<Rightarrow> (case r of None \<Rightarrow> 0 | Some x \<Rightarrow> x)))"

definition forecast_temp :: "forecast option \<Rightarrow> real option" where
  \<comment> \<open>\<^verbatim>\<open>forecast?.current?.temp\<close>\<close>
  "forecast_temp fc = (case fc of None \<Rightarrow> None | Some f \<Rightarrow> current_temp f)"

definition computeThreshold ::
  "(string \<Rightarrow> CropProfile option) \<Rightarrow> telemetry \<Rightarrow> forecast option \<Rightarrow> CropProfile \<Rightarrow> ThresholdResult"
where
  "computeThreshold findOne telemetry forecast cropProfile =
     (let profile = mergeProfile findOne cropProfile;
          fieldCapacityPct' = nullish (fieldCapacityPct profile) 40;
          wiltingPointPct' = nullish (wiltingPointPct profile) 10;
          rootDepth_cm' = nullish (rootDepth_cm profile) 30;
          Kc' = nullish (Kc profile) (9 / 10);
          targetFraction' = nullish (targetFraction profile) (3 / 4);
          hysteresisPct' = nullish (hysteresisPct profile) 5;
          rain24 = forecast_rain24 forecast;
          tDay = nullish (temperature telemetry) (nullish (forecast_temp forecast) 25);
          ETo = max 0 (1 / 10 * (tDay - 10));
          ETc = ETo * Kc';
          rainEff = rain24 * (8 / 10);
          water_deficit_mm = max 0 (ETc - rainEff);
          mmPerPct = max 5 ((rootDepth_cm' * 10) / 10);
          deltaPct = water_deficit_mm / mmPerPct;
          baselinePct = fieldCapacityPct' * targetFraction';
          safetyMargin = 3;
          raw_threshold_on = baselinePct + deltaPct;
          threshold_on' =
            Math_round (max (wiltingPointPct' + safetyMargin)
                            (min (fieldCapacityPct' - safetyMargin) raw_threshold_on));
          threshold_off' = Math_round (min 100 (of_int threshold_on' + hysteresisPct'))
      in \<lparr> threshold_on = threshold_on', threshold_off = threshold_off',
           details = \<lparr> d_ETo = ETo, d_ETc = ETc, d_rain24 = rain24, d_rainEff = rainEff,
                       d_deltaPct = deltaPct, d_baselinePct = baselinePct,
                       d_fieldCapacityPct = fieldCapacityPct',
                       d_wiltingPointPct = wiltingPointPct',
                       d_rootDepth_cm = rootDepth_cm', d_Kc = Kc',
                       d_hysteresisPct = hysteresisPct' \<rparr> \<rparr>)"

subsection \<open>The dashboard's copy (frontend/src/utils/threshold.js)\<close>

definition clamp :: "real \<Rightarrow> real \<Rightarrow> real \<Rightarrow> real" where
  "clamp v a b = max a (min b v)"

definition computeThreshold_frontend ::
  "telemetry \<Rightarrow> forecast option \<Rightarrow> CropProfile \<Rightarrow> ThresholdResult"
where
  "computeThreshold_frontend telemetry forecast cropProfile =
     (let fieldCapacityPct' = nullish (fieldCapacityPct cropProfile) 40;
          wiltingPointPct' = nullish (wiltingPointPct cropProfile) 10;
          rootDepth_cm' = nullish (rootDepth_cm cropProfile) 30;
          Kc' = nullish (Kc cropProfile) (9 / 10);
          targetFraction' = nullish (targetFraction cropProfile) (3 / 4);
          hysteresisPct' = nullish (hysteresisPct cropProfile) 5;
          rain24 = forecast_rain24 forecast;
          tDay = nullish (temperature telemetry) (nullish (forecast_temp forecast) 25);
          ETo = max 0 (1 / 10 * (tDay - 10));
          ETc = ETo * Kc';
          rainEff = rain24 * (8 / 10);
          water_deficit_mm = max 0 (ETc - rainEff);
          mmPerPct = max 5 ((rootDepth_cm' * 10) / 10);
          deltaPct = water_deficit_mm / mmPerPct;
          baselinePct = fieldCapacityPct' * targetFraction';
          safetyMargin = 3;
          threshold_on' =
            Math_round (clamp (baselinePct + deltaPct) (wiltingPointPct' + safetyMargin)
                              (fieldCapacityPct' - safetyMargin));
          threshold_off' =
            Math_round (clamp (of_int threshold_on' + hysteresisPct') (of_int threshold_on') 100)
      in \<lparr> threshold_on = threshold_on', threshold_off = threshold_off',
           details = \<lparr> d_ETo = ETo, d_ETc = ETc, d_rain24 = rain24, d_rainEff = rainEff,
                       d_deltaPct = deltaPct, d_baselinePct = baselinePct,
                       d_fieldCapacityPct = fieldCapacityPct',
                       d_wiltingPointPct = wiltingPointPct',
                       d_rootDepth_cm = rootDepth_cm', d_Kc = Kc',
                       d_hysteresisPct = hysteresisPct' \<rparr> \<rparr>)"


section \<open>Telemetry and the collections (backend/src/models)\<close>

text \<open>
  Telemetry arrives as JSON. The handler reads fourteen properties of the parsed value and
  nothing else, so a parsed value is either falsy (\<open>null\<close>, \<open>false\<close>, \<open>0\<close>,
  the empty string) or is seen through these properties; a value that is not an object has
  none of them.
\<close>

datatype soil_value = SoilNumber real | SoilString string

record payload =
  p_deviceId :: "string option"
  p_zoneId :: "string option"
  p_id :: "string option"
  p_soilPct :: "soil_value option"
  p_soil :: "soil_value option"
  p_temperature :: "real option"
  p_temp :: "real option"
  p_humidity :: "real option"
  p_crop :: "string option"
  p_cropName :: "string option"
  p_lat :: "real option"
  p_latitude :: "real option"
  p_lon :: "real option"
  p_longitude :: "real option"

datatype json = Falsy | Object payload

datatype message = Text string | Buffer string | Parsed json | Other

text \<open>
  Mongoose schemas are strict: a document carries exactly the paths its schema declares.
  \<open>DeviceStateSchema\<close> (DeviceState.js, lines 4-10) declares \<open>deviceId\<close>,
  \<open>relayState\<close>, \<open>lastActionTs\<close>, \<open>lastOnTs\<close> and \<open>lastTelemetry\<close>. The
  controller also reads and assigns \<open>state.lastOffTs\<close>; on a document that is a plain
  property of the object in memory, which \<open>create\<close> drops, \<open>save\<close> does not write
  and \<open>findOne\<close> does not bring back.
\<close>

record DeviceState =
  deviceId :: string
  relayState :: bool
  lastActionTs :: "int option"
  lastOnTs :: "int option"
  lastTelemetry :: payload

record DeviceDocument = DeviceState +
  lastOffTs :: "int option"

definition hydrate :: "DeviceState \<Rightarrow> DeviceDocument" where
  \<comment> \<open>the document \<open>findOne\<close> or \<open>create\<close> hands to the controller\<close>
  "hydrate s =
     \<lparr> deviceId = deviceId s, relayState = relayState s, lastActionTs = lastActionTs s,
       lastOnTs = lastOnTs s, lastTelemetry = lastTelemetry s, lastOffTs = None \<rparr>"

definition toStored :: "DeviceDocument \<Rightarrow> DeviceState" where
  \<comment> \<open>what \<open>save\<close> writes: the paths of the schema\<close>
  "toStored d =
     \<lparr> deviceId = deviceId d, relayState = relayState d, lastActionTs = lastActionTs d,
       lastOnTs = lastOnTs d, lastTelemetry = lastTelemetry d \<rparr>"

record pubRes =
  successes :: "string list"
  failures :: "string list"   \<comment> \<open>the keys of \<open>results.failures\<close>\<close>

datatype extra = NoExtra | PublishResults pubRes | MinOnLeft int | SinceLastOff int

record IrrigationEvent =
  ev_deviceId :: string
  ev_zoneId :: string
  action :: string
  reason :: string
  ev_threshold_on :: int
  ev_threshold_off :: int
  ev_soilPct :: "real option"
  ev_telemetry :: payload
  ev_forecast :: "forecast option"
  ev_details :: details
  timestamp :: int

record ev = IrrigationEvent +
  extra :: extra   \<comment> \<open>line 208; not a path of \<open>IrrigationEventSchema\<close>\<close>

definition IrrigationEvent_action_enum :: "string list" where
  \<comment> \<open>IrrigationEvent.js, line 7\<close>
  "IrrigationEvent_action_enum =
     [''ON'', ''OFF'', ''RECOMMEND_ON'', ''RECOMMEND_OFF'', ''FORCE_ON'', ''FORCE_OFF'']"

record world =
  deviceStates :: "string \<rightharpoonup> DeviceState"      \<comment> \<open>\<open>deviceId\<close> is the unique key\<close>
  irrigationEvents :: "IrrigationEvent list"
  cropProfiles :: "string \<rightharpoonup> CropProfile"

section \<open>What a decision cycle gets from outside\<close>

datatype db_call =
    FindDeviceState        \<comment> \<open>line 175\<close>
  | CreateDeviceState      \<comment> \<open>line 177\<close>
  | SaveTelemetry          \<comment> \<open>line 181\<close>
  | FindCrop               \<comment> \<open>line 186\<close>
  | FindCropForThreshold   \<comment> \<open>line 17\<close>
  | SaveDeviceState        \<comment> \<open>line 206\<close>
  | CreateIrrigationEvent  \<comment> \<open>line 106\<close>

record env =
  Date_now :: int
  JSON_parse :: "string \<Rightarrow> json option"          \<comment> \<open>\<open>None\<close>: \<open>JSON.parse\<close> throws\<close>
  Number_of_string :: "string \<Rightarrow> real option"    \<comment> \<open>\<open>Number(s)\<close> when it is finite\<close>
  mqtt_publish :: "string \<Rightarrow> string \<Rightarrow> int \<Rightarrow> bool"
    \<comment> \<open>topic, payload, attempt: does \<open>mqttClient.publish\<close> resolve?\<close>
  OPENWEATHER_API_KEY :: bool
  axios_get :: "real \<Rightarrow> real \<Rightarrow> forecast option"  \<comment> \<open>\<open>None\<close>: the request fails\<close>
  rejects :: "db_call \<Rightarrow> bool"                    \<comment> \<open>the database rejects this call\<close>

record config =
  MIN_ON_MS :: int
  MIN_INTERVAL_BETWEEN_ON_MS :: int
  MIN_INTERVAL_AFTER_OFF_MS :: int
  MIN_INTERVAL_BETWEEN_OFF_MS :: int
  MQTT_RETRY_COUNT :: int
  DEBUG_ALLOW_REON :: bool
  MAX_ON_MS :: int

definition default_config :: config where
  \<comment> \<open>lines 90-98 with no environment variable set\<close>
  "default_config =
     \<lparr> MIN_ON_MS = 60 * 1000, MIN_INTERVAL_BETWEEN_ON_MS = 30 * 1000,
       MIN_INTERVAL_AFTER_OFF_MS = 5 * 1000, MIN_INTERVAL_BETWEEN_OFF_MS = 5 * 1000,
       MQTT_RETRY_COUNT = 1, DEBUG_ALLOW_REON = False, MAX_ON_MS = 4 * 60 * 60 * 1000 \<rparr>"

section \<open>controllerService\<close>

definition zoneToRelayTopic :: "string \<Rightarrow> string" where
  \<comment> \<open>lines 100-103\<close>
  "zoneToRelayTopic zoneId =
     (case map_of [(''A'', ''esp32/relay1''), (''B'', ''esp32/relay2'')] zoneId of
        Some t \<Rightarrow> t
      | None \<Rightarrow> ''esp32/relay/'' @ zoneId)"

definition IrrigationEvent_create :: "env \<Rightarrow> ev \<Rightarrow> IrrigationEvent option" where
  \<comment> \<open>\<open>IrrigationEvent.create\<close>: the document is validated against the schema, whose
      \<open>action\<close> is an enum, and written with the schema's paths; \<open>None\<close> when it rejects\<close>
  "IrrigationEvent_create e x =
     (if action x \<notin> set IrrigationEvent_action_enum \<or> rejects e CreateIrrigationEvent
      then None
      else Some \<lparr> ev_deviceId = ev_deviceId x, ev_zoneId = ev_zoneId x, action = action x,
                  reason = reason x, ev_threshold_on = ev_threshold_on x,
                  ev_threshold_off = ev_threshold_off x, ev_soilPct = ev_soilPct x,
                  ev_telemetry = ev_telemetry x, ev_forecast = ev_forecast x,
                  ev_details = ev_details x, timestamp = timestamp x \<rparr>)"

definition logIrrigationEvent :: "env \<Rightarrow> ev \<Rightarrow> world \<Rightarrow> world" where
  \<comment> \<open>lines 105-107: a rejected \<open>create\<close> is caught and only warned about\<close>
  "logIrrigationEvent e x w =
     (case IrrigationEvent_create e x of
        None \<Rightarrow> w
      | Some stored \<Rightarrow> w\<lparr> irrigationEvents := irrigationEvents w @ [stored] \<rparr>)"

definition safeParseJSON :: "env \<Rightarrow> message \<Rightarrow> json option" where
  \<comment> \<open>lines 109-116: a string or a buffer is parsed, an object is taken as it is, and a
      thrown error or anything else gives \<open>null\<close>\<close>
  "safeParseJSON e v =
     (case v of
        Text s \<Rightarrow> JSON_parse e s
      | Buffer s \<Rightarrow> JSON_parse e s
      | Parsed j \<Rightarrow> Some j
      | Other \<Rightarrow> None)"

definition isSpace :: "char \<Rightarrow> bool" where
  "isSpace c = (c \<in> set [CHR '' '', CHR 0x09, CHR 0x0A, CHR 0x0B, CHR 0x0C, CHR 0x0D])"

definition trim :: "string \<Rightarrow> string" where
  \<comment> \<open>\<^verbatim>\<open>String.prototype.trim\<close> on ASCII text\<close>
  "trim s = rev (dropWhile isSpace (rev (dropWhile isSpace s)))"

definition normalizeSoil :: "env \<Rightarrow> soil_value option \<Rightarrow> real option" where
  \<comment> \<open>lines 118-126\<close>
  "normalizeSoil e raw =
     (case raw of
        None \<Rightarrow> None
      | Some (SoilNumber n) \<Rightarrow> Some n
      | Some (SoilString s) \<Rightarrow>
          (let t = trim s;
               t' = (if t \<noteq> [] \<and> last t = CHR ''%'' then butlast t else t)
           in Number_of_string e t'))"

datatype outcome =
    Delivered      \<comment> \<open>an attempt resolved: the name goes to \<open>successes\<close>\<close>
  | Failed         \<comment> \<open>every attempt was rejected: \<open>lastErr\<close> is set\<close>
  | NotAttempted   \<comment> \<open>the loop did not run (a negative retry count)\<close>

fun publishAttempts ::
  "(string \<Rightarrow> string \<Rightarrow> int \<Rightarrow> bool) \<Rightarrow> string \<Rightarrow> string \<Rightarrow> int list
     \<Rightarrow> outcome \<times> (string \<times> string) list"
where
  \<comment> \<open>the loop of lines 146-153 over the attempt numbers; the second component lists the
      calls of \<open>mqttClient.publish\<close>\<close>
  "publishAttempts pub topic pl [] = (NotAttempted, [])"
| "publishAttempts pub topic pl (attempt # rest) =
     (if pub topic pl attempt then (Delivered, [(topic, pl)])
      else (case publishAttempts pub topic pl rest of
              (NotAttempted, calls) \<Rightarrow> (Failed, (topic, pl) # calls)
            | (out, calls) \<Rightarrow> (out, (topic, pl) # calls)))"

definition JSON_stringify_cmd :: "string \<Rightarrow> string" where
  \<comment> \<open>\<^verbatim>\<open>JSON.stringify({ cmd: action })\<close>\<close>
  \<open>JSON_stringify_cmd a = ''{"cmd":"'' @ a @ ''"}''\<close>

definition formats :: "string \<Rightarrow> (string \<times> string) list" where
  \<comment> \<open>lines 138-142: name and payload of each encoding\<close>
  "formats a =
     [(''plain'', a), (''numeric'', if a = ''ON'' then ''1'' else ''0''),
      (''json'', JSON_stringify_cmd a)]"

fun publishFormats ::
  "config \<Rightarrow> (string \<Rightarrow> string \<Rightarrow> int \<Rightarrow> bool) \<Rightarrow> string \<Rightarrow> (string \<times> string) list
     \<Rightarrow> pubRes \<times> (string \<times> string) list"
where
  \<comment> \<open>the loop of lines 144-155 over the encodings\<close>
  "publishFormats cfg pub topic [] = (\<lparr> successes = [], failures = [] \<rparr>, [])"
| "publishFormats cfg pub topic ((fmt, pl) # rest) =
     (let (out, calls) = publishAttempts pub topic pl [0..MQTT_RETRY_COUNT cfg];
          (results, calls') = publishFormats cfg pub topic rest
      in (\<lparr> successes = (if out = Delivered then [fmt] else []) @ successes results,
            failures = (if out = Failed then [fmt] else []) @ failures results \<rparr>,
          calls @ calls'))"

definition publishManyFormats ::
  "config \<Rightarrow> (string \<Rightarrow> string \<Rightarrow> int \<Rightarrow> bool) \<Rightarrow> string \<Rightarrow> string
     \<Rightarrow> pubRes \<times> (string \<times> string) list"
where
  \<comment> \<open>lines 137-157: the result and the calls of \<open>mqttClient.publish\<close>, in order\<close>
  "publishManyFormats cfg pub topic a = publishFormats cfg pub topic (formats a)"

record decision =
  dec_action :: string
  dec_reason :: string
  dec_extra :: extra
  dec_calls :: "(string \<times> string) list"   \<comment> \<open>the calls of \<open>mqttClient.publish\<close>, in order\<close>

definition actuate ::
  "config \<Rightarrow> (string \<Rightarrow> string \<Rightarrow> int \<Rightarrow> bool) \<Rightarrow> string \<Rightarrow> string \<Rightarrow> string \<Rightarrow> string
     \<Rightarrow> decision"
where
  \<comment> \<open>lines 231-234, 262-265 and 283-286: publish, then persist the action when an
      encoding went out and a RECOMMEND otherwise\<close>
  "actuate cfg pub deviceId' a reasonOk reasonFailed =
     (let (pubRes, calls) = publishManyFormats cfg pub (zoneToRelayTopic deviceId') a
      in if length (successes pubRes) > 0
         then \<lparr> dec_action = a, dec_reason = reasonOk,
                dec_extra = PublishResults pubRes, dec_calls = calls \<rparr>
         else \<lparr> dec_action = ''RECOMMEND'', dec_reason = reasonFailed,
                dec_extra = PublishResults pubRes, dec_calls = calls \<rparr>)"

definition onGate :: "config \<Rightarrow> int \<Rightarrow> int \<Rightarrow> int \<Rightarrow> bool \<times> string" where
  \<comment> \<open>lines 238-255: \<open>allowOn\<close> and \<open>blockReason\<close>\<close>
  "onGate cfg now lastOn lastOff =
     (let sinceLastOn = now - lastOn;
          sinceLastOff = now - lastOff
      in if lastOff > lastOn
         then (if sinceLastOff \<ge> MIN_INTERVAL_AFTER_OFF_MS cfg
               then (True, ''allow_after_off'')
               else (False, ''blocked_after_off_wait '' @ show_int sinceLastOff @ ''ms<''
                            @ show_int (MIN_INTERVAL_AFTER_OFF_MS cfg)))
         else (if sinceLastOn \<ge> MIN_INTERVAL_BETWEEN_ON_MS cfg
               then (True, ''allow_by_min_between_on'')
               else (False, ''blocked_by_min_between_on '' @ show_int sinceLastOn @ ''ms<''
                            @ show_int (MIN_INTERVAL_BETWEEN_ON_MS cfg))))"

definition recommend :: "string \<Rightarrow> extra \<Rightarrow> decision" where
  \<comment> \<open>a cycle that ends in \<^verbatim>\<open>persistEvent('RECOMMEND', r, x)\<close> without publishing\<close>
  "recommend r x =
     \<lparr> dec_action = ''RECOMMEND'', dec_reason = r, dec_extra = x, dec_calls = [] \<rparr>"

definition decide ::
  "config \<Rightarrow> (string \<Rightarrow> string \<Rightarrow> int \<Rightarrow> bool) \<Rightarrow> int \<Rightarrow> string \<Rightarrow> real option \<Rightarrow> int \<Rightarrow> int
     \<Rightarrow> int \<Rightarrow> int \<Rightarrow> bool \<Rightarrow> decision"
where
  \<comment> \<open>lines 212-291: what is published and which \<open>persistEvent\<close> call ends the cycle\<close>
  "decide cfg pub now deviceId' soil t_on t_off lastOn lastOff relayIsOn =
     (if relayIsOn \<and> now - lastOn > MAX_ON_MS cfg
      then (let (pubRes, calls) = publishManyFormats cfg pub (zoneToRelayTopic deviceId') ''OFF''
            in \<lparr> dec_action = ''OFF'', dec_reason = ''watchdog_forced_off'',
                 dec_extra = PublishResults pubRes, dec_calls = calls \<rparr>)
      else (case soil of
              None \<Rightarrow> recommend ''no_numeric_soil'' NoExtra
            | Some soilPct' \<Rightarrow>
                if soilPct' \<le> of_int t_on \<and> \<not> relayIsOn
                then (if DEBUG_ALLOW_REON cfg
                      then actuate cfg pub deviceId' ''ON'' ''debug_force_on''
                             ''debug_publish_failed_on''
                      else (let (allowOn, blockReason) = onGate cfg now lastOn lastOff
                            in if allowOn
                               then actuate cfg pub deviceId' ''ON'' ''soil_below_threshold_on''
                                      ''publish_failed_on''
                               else recommend blockReason NoExtra))
                else if soilPct' \<ge> of_int t_off \<and> relayIsOn
                then (let sinceOn = now - lastOn;
                          minOnLeft = max 0 (MIN_ON_MS cfg - sinceOn)
                      in if minOnLeft > 0
                         then recommend ''min_on_not_elapsed'' (MinOnLeft minOnLeft)
                         else (let sinceLastOff = now - lastOff
                               in if sinceLastOff < MIN_INTERVAL_BETWEEN_OFF_MS cfg
                                  then recommend ''min_interval_between_off_not_elapsed''
                                         (SinceLastOff sinceLastOff)
                                  else actuate cfg pub deviceId' ''OFF''
                                         ''soil_above_threshold_off'' ''publish_failed_off''))
                else recommend ''no_action'' NoExtra))"

definition telemetry_deviceId :: "payload \<Rightarrow> string" where
  \<comment> \<open>line 163\<close>
  "telemetry_deviceId p =
     (let v = or_str (or_str (p_deviceId p) (p_zoneId p)) (p_id p)
      in if truthy_str v then nullish v [] else ''unknown'')"

definition telemetry_soilPct :: "env \<Rightarrow> payload \<Rightarrow> real option" where
  \<comment> \<open>line 164\<close>
  "telemetry_soilPct e p =
     normalizeSoil e (case p_soilPct p of Some v \<Rightarrow> Some v | None \<Rightarrow> p_soil p)"

definition telemetry_temperature :: "payload \<Rightarrow> real option" where
  \<comment> \<open>line 165\<close>
  "telemetry_temperature p = (case p_temperature p of Some v \<Rightarrow> Some v | None \<Rightarrow> p_temp p)"

definition telemetry_cropName :: "payload \<Rightarrow> string" where
  \<comment> \<open>line 167\<close>
  "telemetry_cropName p =
     (let v = or_str (p_crop p) (p_cropName p)
      in toLowerCase (if truthy_str v then nullish v [] else ''tomato''))"

definition telemetry_lat :: "payload \<Rightarrow> real option" where
  \<comment> \<open>line 168\<close>
  "telemetry_lat p =
     (let v = or_num (p_lat p) (p_latitude p) in if truthy_num v then v else None)"

definition telemetry_lon :: "payload \<Rightarrow> real option" where
  \<comment> \<open>line 169\<close>
  "telemetry_lon p =
     (let v = or_num (p_lon p) (p_longitude p) in if truthy_num v then v else None)"

definition fetchForecast :: "env \<Rightarrow> real option \<Rightarrow> real option \<Rightarrow> forecast option" where
  \<comment> \<open>backend/src/utils/weather.js\<close>
  "fetchForecast e lat lon =
     (if \<not> OPENWEATHER_API_KEY e \<or> \<not> truthy_num lat \<or> \<not> truthy_num lon then None
      else axios_get e (nullish lat 0) (nullish lon 0))"

definition cycle_forecast :: "env \<Rightarrow> payload \<Rightarrow> forecast option" where
  \<comment> \<open>lines 189-192\<close>
  "cycle_forecast e p =
     (if truthy_num (telemetry_lat p) \<and> truthy_num (telemetry_lon p)
      then fetchForecast e (telemetry_lat p) (telemetry_lon p)
      else None)"

definition profileForCompute :: "env \<Rightarrow> world \<Rightarrow> payload \<Rightarrow> CropProfile" where
  \<comment> \<open>lines 185-187\<close>
  "profileForCompute e w p =
     (case (if rejects e FindCrop then None else cropProfiles w (telemetry_cropName p)) of
        Some cropProfile \<Rightarrow> cropProfile
      | None \<Rightarrow>
          \<lparr> name = Some (telemetry_cropName p), Kc = Some (9 / 10),
            targetFraction = Some (3 / 4), rootDepth_cm = Some 30,
            fieldCapacityPct = Some 40, wiltingPointPct = Some 10, hysteresisPct = Some 5 \<rparr>)"

definition cycle_thresholds :: "env \<Rightarrow> world \<Rightarrow> payload \<Rightarrow> ThresholdResult" where
  \<comment> \<open>line 194\<close>
  "cycle_thresholds e w p =
     computeThreshold
       (\<lambda>n. if rejects e FindCropForThreshold then None else cropProfiles w n)
       \<lparr> soilPct = telemetry_soilPct e p, temperature = telemetry_temperature p,
         humidity = p_humidity p \<rparr>
       (cycle_forecast e p) (profileForCompute e w p)"

definition loadState :: "env \<Rightarrow> payload \<Rightarrow> world \<Rightarrow> DeviceDocument option \<times> world" where
  \<comment> \<open>lines 173-183: \<open>state\<close> stays undefined when the database rejects\<close>
  "loadState e p w =
     (if rejects e FindDeviceState then (None, w)
      else (case deviceStates w (telemetry_deviceId p) of
              None \<Rightarrow>
                if rejects e CreateDeviceState then (None, w)
                else (let s = \<lparr> deviceId = telemetry_deviceId p, relayState = False,
                                 lastActionTs = None, lastOnTs = None, lastTelemetry = p \<rparr>
                      in (Some (hydrate s),
                          w\<lparr> deviceStates := (deviceStates w)(telemetry_deviceId p \<mapsto> s) \<rparr>))
            | Some s \<Rightarrow>
                (let state = (hydrate s)\<lparr> lastTelemetry := p \<rparr>
                 in (Some state,
                     if rejects e SaveTelemetry then w
                     else w\<lparr> deviceStates :=
                              (deviceStates w)(telemetry_deviceId p \<mapsto> toStored state) \<rparr>))))"

definition persistState :: "int \<Rightarrow> string \<Rightarrow> DeviceDocument \<Rightarrow> DeviceDocument" where
  \<comment> \<open>lines 203-205\<close>
  "persistState now a state =
     (if a = ''ON''
      then state\<lparr> relayState := True, lastOnTs := Some now, lastActionTs := Some now \<rparr>
      else if a = ''OFF''
      then state\<lparr> relayState := False, lastOffTs := Some now, lastActionTs := Some now \<rparr>
      else state\<lparr> lastActionTs := Some now \<rparr>)"

definition persistEvent ::
  "env \<Rightarrow> payload \<Rightarrow> ThresholdResult \<Rightarrow> DeviceDocument option \<Rightarrow> decision \<Rightarrow> world
     \<Rightarrow> world \<times> ev"
where
  \<comment> \<open>lines 201-210; with \<open>state\<close> undefined the first assignment throws and the
      \<open>catch\<close> goes on to the event\<close>
  "persistEvent e p thr state d w =
     (let w1 = (case state of
                  None \<Rightarrow> w
                | Some st \<Rightarrow>
                    if rejects e SaveDeviceState then w
                    else w\<lparr> deviceStates :=
                             (deviceStates w)(telemetry_deviceId p \<mapsto>
                                toStored (persistState (Date_now e) (dec_action d) st)) \<rparr>);
          x = \<lparr> ev_deviceId = telemetry_deviceId p, ev_zoneId = telemetry_deviceId p,
                action = dec_action d, reason = dec_reason d,
                ev_threshold_on = threshold_on thr, ev_threshold_off = threshold_off thr,
                ev_soilPct = telemetry_soilPct e p, ev_telemetry = p,
                ev_forecast = cycle_forecast e p, ev_details = details thr,
                timestamp = Date_now e, extra = dec_extra d \<rparr>
      in (logIrrigationEvent e x w1, x))"

record effects =
  publish_calls :: "(string \<times> string) list"  \<comment> \<open>topic and payload of each publish, in order\<close>
  logged :: "ev option"                       \<comment> \<open>the argument of \<open>logIrrigationEvent\<close>\<close>

definition state_lastOnTs :: "DeviceDocument option \<Rightarrow> int" where
  \<comment> \<open>line 197\<close>
  "state_lastOnTs state = (case state of None \<Rightarrow> 0 | Some st \<Rightarrow> nullish (lastOnTs st) 0)"

definition state_lastOffTs :: "DeviceDocument option \<Rightarrow> int" where
  \<comment> \<open>line 198\<close>
  "state_lastOffTs state = (case state of None \<Rightarrow> 0 | Some st \<Rightarrow> nullish (lastOffTs st) 0)"

definition state_relayIsOn :: "DeviceDocument option \<Rightarrow> bool" where
  \<comment> \<open>line 199\<close>
  "state_relayIsOn state = (case state of None \<Rightarrow> False | Some st \<Rightarrow> relayState st)"

definition cycle_decision ::
  "config \<Rightarrow> env \<Rightarrow> payload \<Rightarrow> DeviceDocument option \<Rightarrow> world \<Rightarrow> decision"
where
  \<comment> \<open>lines 194-199 and 212-291 on the \<open>state\<close> in memory\<close>
  "cycle_decision cfg e p state w =
     decide cfg (mqtt_publish e) (Date_now e) (telemetry_deviceId p) (telemetry_soilPct e p)
       (threshold_on (cycle_thresholds e w p)) (threshold_off (cycle_thresholds e w p))
       (state_lastOnTs state) (state_lastOffTs state) (state_relayIsOn state)"

definition runCycle ::
  "config \<Rightarrow> env \<Rightarrow> payload \<Rightarrow> DeviceDocument option \<Rightarrow> world \<Rightarrow> world \<times> effects"
where
  \<comment> \<open>lines 185-291: the cycle once \<open>state\<close> is in memory\<close>
  "runCycle cfg e p state w =
     (let d = cycle_decision cfg e p state w;
          (w', x) = persistEvent e p (cycle_thresholds e w p) state d w
      in (w', \<lparr> publish_calls = dec_calls d, logged = Some x \<rparr>))"

definition handleTelemetryMessage ::
  "config \<Rightarrow> env \<Rightarrow> string \<Rightarrow> message \<Rightarrow> world \<Rightarrow> world \<times> effects"
where
  \<comment> \<open>lines 159-292: a message that does not parse, or parses to a falsy value, is
      dropped (line 161)\<close>
  "handleTelemetryMessage cfg e topic m w =
     (case safeParseJSON e m of
        None \<Rightarrow> (w, \<lparr> publish_calls = [], logged = None \<rparr>)
      | Some Falsy \<Rightarrow> (w, \<lparr> publish_calls = [], logged = None \<rparr>)
      | Some (Object p) \<Rightarrow>
          (let (state, w1) = loadState e p w
           in runCycle cfg e p state w1))"

section \<open>Notions used by the statements\<close>

subsection \<open>The threshold band\<close>

definition raw_threshold_on :: "telemetry \<Rightarrow> forecast option \<Rightarrow> CropProfile \<Rightarrow> real" where
  \<comment> \<open>\<open>raw_threshold_on\<close> of line 56 as a function of the resolved profile\<close>
  "raw_threshold_on tel fc p =
     nullish (fieldCapacityPct p) 40 * nullish (targetFraction p) (3 / 4) +
     max 0 (max 0 (1 / 10 * (nullish (temperature tel) (nullish (forecast_temp fc) 25) - 10))
              * nullish (Kc p) (9 / 10)
            - forecast_rain24 fc * (8 / 10))
       / max 5 ((nullish (rootDepth_cm p) 30 * 10) / 10)"

definition validCropProfile :: "CropProfile \<Rightarrow> bool" where
  \<comment> \<open>a valid profile in the words of the specification: percentages within 0-100,
      wilting point below field capacity, hysteresis not negative\<close>
  "validCropProfile p =
     (0 \<le> nullish (wiltingPointPct p) 10 \<and>
      nullish (wiltingPointPct p) 10 < nullish (fieldCapacityPct p) 40 \<and>
      nullish (fieldCapacityPct p) 40 \<le> 100 \<and>
      0 \<le> nullish (hysteresisPct p) 5)"

definition profile_of :: "real \<Rightarrow> real \<Rightarrow> real \<Rightarrow> real \<Rightarrow> CropProfile" where
  \<comment> \<open>the tomato profile with the given field capacity, wilting point, hysteresis and
      target fraction\<close>
  "profile_of fc wp h tf =
     \<lparr> name = Some ''tomato'', Kc = Some (9 / 10), targetFraction = Some tf,
       rootDepth_cm = Some 30, fieldCapacityPct = Some fc, wiltingPointPct = Some wp,
       hysteresisPct = Some h \<rparr>"

definition no_crops :: "string \<Rightarrow> CropProfile option" where
  \<comment> \<open>an empty crop collection\<close>
  "no_crops = (\<lambda>_. None)"

definition reading :: telemetry where
  "reading = \<lparr> soilPct = Some 28, temperature = Some 25, humidity = None \<rparr>"

definition rain :: "real \<Rightarrow> forecast option" where
  \<comment> \<open>a forecast whose first day brings the given millimetres of rain\<close>
  "rain mm = Some \<lparr> daily = [Some mm], current_temp = None \<rparr>"

subsection \<open>Relay commands and reasons\<close>

definition OFF_payloads :: "string set" where
  \<comment> \<open>the three encodings of an OFF command\<close>
  "OFF_payloads = {''OFF'', ''0'', JSON_stringify_cmd ''OFF''}"

definition ON_payloads :: "string set" where
  \<comment> \<open>the three encodings of an ON command\<close>
  "ON_payloads = {''ON'', ''1'', JSON_stringify_cmd ''ON''}"

definition between_on_blocked :: "string \<Rightarrow> bool" where
  \<comment> \<open>the reason is the block reason of line 254\<close>
  "between_on_blocked r = (take 25 r = ''blocked_by_min_between_on'')"

subsection \<open>Concrete cycles\<close>

text \<open>
  The cycles below run device \<open>A\<close> with the built-in tomato profile at 25 degrees and no
  forecast, so the band is 30 to 35. The database accepts every call; the broker accepts
  every publish or none.
\<close>

definition env_at :: "int \<Rightarrow> bool \<Rightarrow> env" where
  \<comment> \<open>the clock reads \<open>now\<close>; \<open>ok\<close>: the broker accepts every publish\<close>
  "env_at now ok =
     \<lparr> Date_now = now, JSON_parse = (\<lambda>_. None), Number_of_string = (\<lambda>_. None),
       mqtt_publish = (\<lambda>_ _ _. ok), OPENWEATHER_API_KEY = False, axios_get = (\<lambda>_ _. None),
       rejects = (\<lambda>_. False) \<rparr>"

definition reading_from :: "string \<Rightarrow> real option \<Rightarrow> payload" where
  \<comment> \<open>\<^verbatim>\<open>{ deviceId, soilPct, temperature: 25 }\<close>\<close>
  "reading_from dev soil =
     \<lparr> p_deviceId = Some dev, p_zoneId = None, p_id = None,
       p_soilPct = map_option SoilNumber soil, p_soil = None,
       p_temperature = Some 25, p_temp = None, p_humidity = None, p_crop = None,
       p_cropName = None, p_lat = None, p_latitude = None, p_lon = None, p_longitude = None \<rparr>"

definition stored_device :: "string \<Rightarrow> bool \<Rightarrow> int option \<Rightarrow> payload \<Rightarrow> DeviceState" where
  \<comment> \<open>a stored record whose last action, at \<open>t\<close>, was an ON\<close>
  "stored_device dev r t p =
     \<lparr> deviceId = dev, relayState = r, lastActionTs = t, lastOnTs = t, lastTelemetry = p \<rparr>"

definition document :: "string \<Rightarrow> bool \<Rightarrow> int option \<Rightarrow> int option \<Rightarrow> payload \<Rightarrow> DeviceDocument" where
  \<comment> \<open>a document in memory with both timestamps\<close>
  "document dev r ton toff p =
     \<lparr> deviceId = dev, relayState = r, lastActionTs = toff, lastOnTs = ton,
       lastTelemetry = p, lastOffTs = toff \<rparr>"

definition world_with :: "(string \<rightharpoonup> DeviceState) \<Rightarrow> world" where
  "world_with ds = \<lparr> deviceStates = ds, irrigationEvents = [], cropProfiles = Map.empty \<rparr>"

definition one_device :: "DeviceState \<Rightarrow> world" where
  "one_device s = world_with [deviceId s \<mapsto> s]"

definition no_devices :: world where
  "no_devices = world_with Map.empty"

definition debug_config :: config where
  "debug_config = default_config\<lparr> DEBUG_ALLOW_REON := True \<rparr>"

definition first_delivery :: "world \<times> effects" where
  \<comment> \<open>a device seen for the first time reports 28 percent\<close>
  "first_delivery =
     handleTelemetryMessage default_config (env_at 1000000 True) ''esp32/telemetry''
       (Parsed (Object (reading_from ''A'' (Some 28)))) no_devices"

definition second_delivery :: "world \<times> effects" where
  \<comment> \<open>the same message again, ten seconds later\<close>
  "second_delivery =
     handleTelemetryMessage default_config (env_at 1010000 True) ''esp32/telemetry''
       (Parsed (Object (reading_from ''A'' (Some 28)))) (fst first_delivery)"

definition idle_delivery :: "world \<times> effects" where
  \<comment> \<open>a device seen for the first time reports 32 percent, inside the band\<close>
  "idle_delivery =
     handleTelemetryMessage default_config (env_at 1000000 True) ''esp32/telemetry''
       (Parsed (Object (reading_from ''A'' (Some 32)))) no_devices"

definition off_delivery :: "world \<times> effects" where
  \<comment> \<open>on for 70 seconds, the device reports 50 percent\<close>
  "off_delivery =
     handleTelemetryMessage default_config (env_at 1070000 True) ''esp32/telemetry''
       (Parsed (Object (reading_from ''A'' (Some 50))))
       (one_device (stored_device ''A'' True (Some 1000000) (reading_from ''A'' (Some 28))))"

definition after_off_delivery :: "world \<times> effects" where
  \<comment> \<open>two seconds after \<open>off_delivery\<close> the device reports 28 percent\<close>
  "after_off_delivery =
     handleTelemetryMessage default_config (env_at 1072000 True) ''esp32/telemetry''
       (Parsed (Object (reading_from ''A'' (Some 28)))) (fst off_delivery)"

definition early_wet_delivery :: "world \<times> effects" where
  \<comment> \<open>on for one second, the device reports 50 percent\<close>
  "early_wet_delivery =
     handleTelemetryMessage default_config (env_at 1001000 True) ''esp32/telemetry''
       (Parsed (Object (reading_from ''A'' (Some 50))))
       (one_device (stored_device ''A'' True (Some 1000000) (reading_from ''A'' (Some 28))))"

definition watchdog_delivery :: "world \<times> effects" where
  \<comment> \<open>on for more than five hours, the device reports 20 percent\<close>
  "watchdog_delivery =
     handleTelemetryMessage default_config (env_at 20000000 True) ''esp32/telemetry''
       (Parsed (Object (reading_from ''A'' (Some 20))))
       (one_device (stored_device ''A'' True (Some 1000) (reading_from ''A'' (Some 20))))"

definition off_path_down :: "world \<times> effects" where
  \<comment> \<open>\<open>off_delivery\<close> with the broker down\<close>
  "off_path_down =
     handleTelemetryMessage default_config (env_at 1070000 False) ''esp32/telemetry''
       (Parsed (Object (reading_from ''A'' (Some 50))))
       (one_device (stored_device ''A'' True (Some 1000000) (reading_from ''A'' (Some 28))))"

definition watchdog_down :: "world \<times> effects" where
  \<comment> \<open>on for more than five hours, broker down\<close>
  "watchdog_down =
     handleTelemetryMessage default_config (env_at 20000000 False) ''esp32/telemetry''
       (Parsed (Object (reading_from ''A'' (Some 28))))
       (one_device (stored_device ''A'' True (Some 1000) (reading_from ''A'' (Some 28))))"

definition debug_delivery :: "world \<times> effects" where
  \<comment> \<open>\<open>DEBUG_ALLOW_REON\<close> set; a device seen for the first time reports 28 percent one
      second after the epoch, inside the 30 seconds of the between-ON gate\<close>
  "debug_delivery =
     handleTelemetryMessage debug_config (env_at 1000 True) ''esp32/telemetry''
       (Parsed (Object (reading_from ''A'' (Some 28)))) no_devices"

section \<open>The threshold computation, line by line\<close>

lemma threshold_on_eq:
  "threshold_on (computeThreshold findOne tel fc cp) =
     Math_round (max (nullish (wiltingPointPct (mergeProfile findOne cp)) 10 + 3)
                     (min (nullish (fieldCapacityPct (mergeProfile findOne cp)) 40 - 3)
                          (raw_threshold_on tel fc (mergeProfile findOne cp))))"
  unfolding computeThreshold_def Let_def raw_threshold_on_def
  by (simp only: ThresholdResult.select_convs)

lemma threshold_off_eq:
  "threshold_off (computeThreshold findOne tel fc cp) =
     Math_round (min 100 (of_int (threshold_on (computeThreshold findOne tel fc cp))
                          + nullish (hysteresisPct (mergeProfile findOne cp)) 5))"
  unfolding computeThreshold_def Let_def
  by (simp only: ThresholdResult.select_convs)

lemma frontend_threshold_on_eq:
  "threshold_on (computeThreshold_frontend tel fc p) =
     Math_round (clamp (raw_threshold_on tel fc p) (nullish (wiltingPointPct p) 10 + 3)
                       (nullish (fieldCapacityPct p) 40 - 3))"
  unfolding computeThreshold_frontend_def Let_def raw_threshold_on_def
  by (simp only: ThresholdResult.select_convs)

lemma frontend_threshold_off_eq:
  "threshold_off (computeThreshold_frontend tel fc p) =
     Math_round (clamp (of_int (threshold_on (computeThreshold_frontend tel fc p))
                        + nullish (hysteresisPct p) 5)
                       (of_int (threshold_on (computeThreshold_frontend tel fc p))) 100)"
  unfolding computeThreshold_frontend_def Let_def
  by (simp only: ThresholdResult.select_convs)

lemma Math_round_mono: "x \<le> y \<Longrightarrow> Math_round x \<le> Math_round y"
  by (simp add: Math_round_def floor_mono)

lemma Math_round_of_int: "Math_round (of_int k) = k"
  unfolding Math_round_def by linarith

lemma Math_round_bounds:
  assumes "of_int a \<le> x" "x \<le> of_int b"
  shows "a \<le> Math_round x \<and> Math_round x \<le> b"
  using Math_round_mono[OF assms(1)] Math_round_mono[OF assms(2)]
  by (simp add: Math_round_of_int)

lemma raw_threshold_on_antimono:
  assumes "forecast_temp fo1 = forecast_temp fo2" "forecast_rain24 fo1 \<le> forecast_rain24 fo2"
  shows "raw_threshold_on tel fo2 p \<le> raw_threshold_on tel fo1 p"
proof -
  let ?m = "max 5 ((nullish (rootDepth_cm p) 30 * 10) / 10)"
  let ?E = "max 0 (1 / 10 * (nullish (temperature tel) (nullish (forecast_temp fo1) 25) - 10))
              * nullish (Kc p) (9 / 10)"
  have pos: "(0::real) < ?m"
    by simp
  have "max 0 (?E - forecast_rain24 fo2 * (8 / 10)) \<le> max 0 (?E - forecast_rain24 fo1 * (8 / 10))"
    using assms(2) by (intro max.mono) auto
  then have "max 0 (?E - forecast_rain24 fo2 * (8 / 10)) / ?m
        \<le> max 0 (?E - forecast_rain24 fo1 * (8 / 10)) / ?m"
    using pos by (rule divide_right_mono[OF _ less_imp_le])
  then show ?thesis
    unfolding raw_threshold_on_def assms(1)[symmetric] by simp
qed

lemmas threshold_eval =
  raw_threshold_on_def mergeProfile_def profile_of_def reading_def rain_def truthy_str_def
  truthy_num_def nullish_def forecast_rain24_def forecast_temp_def Math_round_def clamp_def

text \<open>The scenario of the specification: tomato at 25 degrees without rain gives the band 30 to 35.\<close>

lemma tomato_threshold_on:
  "threshold_on (computeThreshold no_crops reading None (profile_of 40 10 5 (3 / 4))) = 30"
  by (simp add: threshold_on_eq threshold_eval)

lemma tomato_threshold_off:
  "threshold_off (computeThreshold no_crops reading None (profile_of 40 10 5 (3 / 4))) = 35"
  by (simp add: threshold_off_eq tomato_threshold_on) (simp add: threshold_eval)

lemma narrow_threshold_on:
  "threshold_on (computeThreshold no_crops reading None (profile_of 12 10 5 (3 / 4))) = 13"
  by (simp add: threshold_on_eq threshold_eval)

lemma high_threshold_on:
  "threshold_on (computeThreshold no_crops reading None (profile_of 100 98 5 (3 / 4))) = 101"
  by (simp add: threshold_on_eq threshold_eval)

lemma high_threshold_off:
  "threshold_off (computeThreshold no_crops reading None (profile_of 100 98 5 (3 / 4))) = 100"
  by (simp add: threshold_off_eq high_threshold_on) (simp add: threshold_eval)

lemma fractional_threshold_on:
  "threshold_on (computeThreshold no_crops reading None (profile_of 40 (52 / 5) 5 (1 / 4))) = 13"
  by (simp add: threshold_on_eq threshold_eval)

section \<open>The handler, step by step\<close>

subsection \<open>Loading the state\<close>

lemma parse_Parsed: "safeParseJSON e (Parsed j) = Some j"
  by (simp add: safeParseJSON_def)

lemma handle_Object:
  "safeParseJSON e m = Some (Object p) \<Longrightarrow>
   handleTelemetryMessage cfg e topic m w =
     runCycle cfg e p (fst (loadState e p w)) (snd (loadState e p w))"
  by (simp add: handleTelemetryMessage_def split: prod.split)

lemma loadState_cropProfiles: "cropProfiles (snd (loadState e p w)) = cropProfiles w"
  by (simp add: loadState_def Let_def split: option.split)

lemma loadState_events: "irrigationEvents (snd (loadState e p w)) = irrigationEvents w"
  by (simp add: loadState_def Let_def split: option.split)

lemma cycle_thresholds_cong:
  "cropProfiles w' = cropProfiles w \<Longrightarrow> cycle_thresholds e w' p = cycle_thresholds e w p"
  unfolding cycle_thresholds_def profileForCompute_def by (simp cong: if_cong)

lemma loadState_lastOffTs: "state_lastOffTs (fst (loadState e p w)) = 0"
  by (simp add: loadState_def state_lastOffTs_def hydrate_def nullish_def Let_def split: option.split)

lemma loadState_found:
  "\<not> rejects e FindDeviceState \<Longrightarrow> deviceStates w (telemetry_deviceId p) = Some s \<Longrightarrow>
   fst (loadState e p w) = Some ((hydrate s)\<lparr> lastTelemetry := p \<rparr>)"
  by (simp add: loadState_def Let_def)

lemma loadState_fresh:
  "\<not> rejects e FindDeviceState \<Longrightarrow> \<not> rejects e CreateDeviceState \<Longrightarrow>
   deviceStates w (telemetry_deviceId p) = None \<Longrightarrow>
   fst (loadState e p w) =
     Some (hydrate \<lparr> deviceId = telemetry_deviceId p, relayState = False, lastActionTs = None,
                     lastOnTs = None, lastTelemetry = p \<rparr>)"
  by (simp add: loadState_def Let_def)

lemma loadState_Some:
  "\<not> rejects e FindDeviceState \<Longrightarrow> \<not> rejects e CreateDeviceState \<Longrightarrow>
   \<exists>st. fst (loadState e p w) = Some st"
  by (simp add: loadState_def Let_def split: option.split)

lemma loadState_rejected:
  "rejects e FindDeviceState \<Longrightarrow> loadState e p w = (None, w)"
  by (simp add: loadState_def)

lemma loadState_keeps:
  assumes "deviceStates w (telemetry_deviceId p) = Some s"
  shows "\<exists>s'. deviceStates (snd (loadState e p w)) (telemetry_deviceId p) = Some s'
            \<and> relayState s' = relayState s \<and> lastOnTs s' = lastOnTs s"
  using assms by (simp add: loadState_def Let_def hydrate_def toStored_def)

lemma loadState_others:
  "d \<noteq> telemetry_deviceId p \<Longrightarrow> deviceStates (snd (loadState e p w)) d = deviceStates w d"
  by (simp add: loadState_def Let_def split: option.split)

lemma loadState_state_relay:
  "fst (loadState e p w) = Some st \<Longrightarrow>
   relayState st = (case deviceStates w (telemetry_deviceId p) of None \<Rightarrow> False | Some s \<Rightarrow> relayState s)
   \<and> lastOnTs st = (case deviceStates w (telemetry_deviceId p) of None \<Rightarrow> None | Some s \<Rightarrow> lastOnTs s)"
  by (auto simp: loadState_def Let_def hydrate_def split: option.splits if_splits)

lemma loadState_store_relay:
  "deviceStates (snd (loadState e p w)) (telemetry_deviceId p) = Some s1 \<Longrightarrow>
   relayState s1 = (case deviceStates w (telemetry_deviceId p) of None \<Rightarrow> False | Some s \<Rightarrow> relayState s)
   \<and> lastOnTs s1 = (case deviceStates w (telemetry_deviceId p) of None \<Rightarrow> None | Some s \<Rightarrow> lastOnTs s)"
  by (auto simp: loadState_def Let_def hydrate_def toStored_def split: option.splits if_splits)

lemma loadState_relayIsOn:
  "state_relayIsOn (fst (loadState e p w)) \<Longrightarrow>
   \<exists>s. deviceStates w (telemetry_deviceId p) = Some s \<and> relayState s
       \<and> state_lastOnTs (fst (loadState e p w)) = nullish (lastOnTs s) 0"
  by (auto simp: loadState_def Let_def hydrate_def state_relayIsOn_def state_lastOnTs_def
      split: option.splits if_splits)

lemma cycle_decision_loaded:
  "cycle_decision cfg e p (fst (loadState e p w)) (snd (loadState e p w)) =
     decide cfg (mqtt_publish e) (Date_now e) (telemetry_deviceId p) (telemetry_soilPct e p)
       (threshold_on (cycle_thresholds e w p)) (threshold_off (cycle_thresholds e w p))
       (state_lastOnTs (fst (loadState e p w))) 0 (state_relayIsOn (fst (loadState e p w)))"
  unfolding cycle_decision_def loadState_lastOffTs
    cycle_thresholds_cong[OF loadState_cropProfiles] ..

lemma found_decision:
  assumes "\<not> rejects e FindDeviceState" "deviceStates w (telemetry_deviceId p) = Some s"
  shows "cycle_decision cfg e p (fst (loadState e p w)) (snd (loadState e p w)) =
     decide cfg (mqtt_publish e) (Date_now e) (telemetry_deviceId p) (telemetry_soilPct e p)
       (threshold_on (cycle_thresholds e w p)) (threshold_off (cycle_thresholds e w p))
       (nullish (lastOnTs s) 0) 0 (relayState s)"
  by (subst cycle_decision_loaded)
     (simp add: loadState_found[OF assms] state_lastOnTs_def state_relayIsOn_def hydrate_def)

subsection \<open>Persisting the outcome\<close>

lemma persistState_RECOMMEND:
  "relayState (persistState now ''RECOMMEND'' st) = relayState st"
  "lastOnTs (persistState now ''RECOMMEND'' st) = lastOnTs st"
  "lastOffTs (persistState now ''RECOMMEND'' st) = lastOffTs st"
  "lastActionTs (persistState now ''RECOMMEND'' st) = Some now"
  by (simp_all add: persistState_def)

lemma persistState_ON:
  "relayState (persistState now ''ON'' st)" "lastOnTs (persistState now ''ON'' st) = Some now"
  by (simp_all add: persistState_def)

lemma runCycle_calls:
  "publish_calls (snd (runCycle cfg e p state w)) = dec_calls (cycle_decision cfg e p state w)"
  by (simp add: runCycle_def Let_def split: prod.split)

lemma runCycle_logged:
  "\<exists>x. logged (snd (runCycle cfg e p state w)) = Some x
       \<and> action x = dec_action (cycle_decision cfg e p state w)
       \<and> reason x = dec_reason (cycle_decision cfg e p state w)
       \<and> extra x = dec_extra (cycle_decision cfg e p state w)"
  by (simp add: runCycle_def persistEvent_def Let_def split: prod.split)

lemma runCycle_action:
  "map_option action (logged (snd (runCycle cfg e p state w)))
     = Some (dec_action (cycle_decision cfg e p state w))"
  "map_option reason (logged (snd (runCycle cfg e p state w)))
     = Some (dec_reason (cycle_decision cfg e p state w))"
  using runCycle_logged[of cfg e p state w] by auto

lemma runCycle_deviceStates:
  "deviceStates (fst (runCycle cfg e p state w)) =
     (case state of
        None \<Rightarrow> deviceStates w
      | Some st \<Rightarrow>
          if rejects e SaveDeviceState then deviceStates w
          else (deviceStates w)(telemetry_deviceId p \<mapsto>
                 toStored (persistState (Date_now e) (dec_action (cycle_decision cfg e p state w)) st)))"
  by (simp add: runCycle_def persistEvent_def logIrrigationEvent_def Let_def split: prod.split option.split)

lemma runCycle_others:
  "d \<noteq> telemetry_deviceId p \<Longrightarrow>
   deviceStates (fst (runCycle cfg e p state w)) d = deviceStates w d"
  by (simp add: runCycle_deviceStates split: option.split)

lemma runCycle_cropProfiles: "cropProfiles (fst (runCycle cfg e p state w)) = cropProfiles w"
  by (simp add: runCycle_def persistEvent_def logIrrigationEvent_def Let_def
      split: prod.split option.split)

lemma handle_cropProfiles:
  "cropProfiles (fst (handleTelemetryMessage cfg e topic (Parsed (Object p)) w)) = cropProfiles w"
  by (simp add: handle_Object[OF parse_Parsed] runCycle_cropProfiles loadState_cropProfiles)

lemma runCycle_events_rejected:
  "dec_action (cycle_decision cfg e p state w) \<notin> set IrrigationEvent_action_enum \<Longrightarrow>
   irrigationEvents (fst (runCycle cfg e p state w)) = irrigationEvents w"
  by (simp add: runCycle_def persistEvent_def logIrrigationEvent_def IrrigationEvent_create_def
      Let_def split: option.split)

lemma runCycle_events_accepted:
  "dec_action (cycle_decision cfg e p state w) \<in> set IrrigationEvent_action_enum \<Longrightarrow>
   \<not> rejects e CreateIrrigationEvent \<Longrightarrow>
   length (irrigationEvents (fst (runCycle cfg e p state w))) = length (irrigationEvents w) + 1"
  by (simp add: runCycle_def persistEvent_def logIrrigationEvent_def IrrigationEvent_create_def
      Let_def split: option.split)

lemma found_store:
  assumes "\<not> rejects e FindDeviceState" "deviceStates w (telemetry_deviceId p) = Some s"
    and "\<not> rejects e SaveDeviceState"
  shows "deviceStates (fst (runCycle cfg e p (fst (loadState e p w)) (snd (loadState e p w))))
           (telemetry_deviceId p) =
         Some (toStored (persistState (Date_now e)
                 (dec_action (cycle_decision cfg e p (fst (loadState e p w)) (snd (loadState e p w))))
                 ((hydrate s)\<lparr> lastTelemetry := p \<rparr>)))"
  by (subst runCycle_deviceStates) (simp add: loadState_found[OF assms(1,2)] assms(3))

lemma fresh_store:
  assumes "\<not> rejects e FindDeviceState" "\<not> rejects e CreateDeviceState"
    "deviceStates w (telemetry_deviceId p) = None" "\<not> rejects e SaveDeviceState"
  shows "deviceStates (fst (runCycle cfg e p (fst (loadState e p w)) (snd (loadState e p w))))
           (telemetry_deviceId p) =
         Some (toStored (persistState (Date_now e)
                 (dec_action (cycle_decision cfg e p (fst (loadState e p w)) (snd (loadState e p w))))
                 (hydrate \<lparr> deviceId = telemetry_deviceId p, relayState = False,
                            lastActionTs = None, lastOnTs = None, lastTelemetry = p \<rparr>)))"
  by (subst runCycle_deviceStates) (simp add: loadState_fresh[OF assms(1-3)] assms(4))

lemma RECOMMEND_not_in_enum: "''RECOMMEND'' \<notin> set IrrigationEvent_action_enum"
  by (simp add: IrrigationEvent_action_enum_def)

subsection \<open>Publishing\<close>

lemma publishAttempts_calls: "set (snd (publishAttempts pub t pl as)) \<subseteq> {(t, pl)}"
  by (induction as) (auto split: prod.splits outcome.splits)

lemma publishFormats_calls:
  "set (snd (publishFormats cfg pub t fs)) \<subseteq> {t} \<times> snd ` set fs"
proof (induction fs)
  case Nil
  then show ?case by simp
next
  case (Cons f fs)
  obtain n pl where f: "f = (n, pl)" by (cases f)
  have "set (snd (publishAttempts pub t pl [0..MQTT_RETRY_COUNT cfg])) \<subseteq> {(t, pl)}"
    by (rule publishAttempts_calls)
  with Cons show ?case
    unfolding f by (auto simp: Let_def split: prod.splits)
qed

lemma publishManyFormats_calls:
  "set (snd (publishManyFormats cfg pub t a)) \<subseteq> {t} \<times> snd ` set (formats a)"
  unfolding publishManyFormats_def by (rule publishFormats_calls)

lemma publishAttempts_all_fail:
  "\<forall>k. \<not> pub t pl k \<Longrightarrow> fst (publishAttempts pub t pl as) \<noteq> Delivered"
  by (induction as) (auto split: prod.splits outcome.splits)

lemma publishFormats_all_fail:
  "\<forall>t pl k. \<not> pub t pl k \<Longrightarrow> successes (fst (publishFormats cfg pub t fs)) = []"
proof (induction fs)
  case Nil
  then show ?case by simp
next
  case (Cons f fs)
  obtain n pl where f: "f = (n, pl)" by (cases f)
  have "fst (publishAttempts pub t pl [0..MQTT_RETRY_COUNT cfg]) \<noteq> Delivered"
    using Cons.prems by (intro publishAttempts_all_fail) simp
  moreover have "successes (fst (publishFormats cfg pub t fs)) = []"
    using Cons by blast
  ultimately show ?case
    unfolding f by (simp add: Let_def case_prod_beta)
qed

lemma publishManyFormats_all_fail:
  "\<forall>t pl k. \<not> pub t pl k \<Longrightarrow> successes (fst (publishManyFormats cfg pub t a)) = []"
  unfolding publishManyFormats_def by (rule publishFormats_all_fail)

lemma formats_OFF: "snd ` set (formats ''OFF'') = OFF_payloads"
  by (auto simp: formats_def OFF_payloads_def)

lemma formats_ON: "snd ` set (formats ''ON'') = ON_payloads"
  by (auto simp: formats_def ON_payloads_def)

lemma ON_OFF_disjoint: "x \<in> ON_payloads \<Longrightarrow> x \<notin> OFF_payloads"
  by (auto simp: ON_payloads_def OFF_payloads_def JSON_stringify_cmd_def)

lemma publish_up:
  "MQTT_RETRY_COUNT cfg = 1 \<Longrightarrow>
   publishManyFormats cfg (\<lambda>_ _ _. True) t a =
     (\<lparr> successes = [''plain'', ''numeric'', ''json''], failures = [] \<rparr>,
      [(t, a), (t, if a = ''ON'' then ''1'' else ''0''), (t, JSON_stringify_cmd a)])"
  by (simp add: publishManyFormats_def formats_def upto.simps)

lemma publish_down:
  "MQTT_RETRY_COUNT cfg = 1 \<Longrightarrow>
   publishManyFormats cfg (\<lambda>_ _ _. False) t a =
     (\<lparr> successes = [], failures = [''plain'', ''numeric'', ''json''] \<rparr>,
      [(t, a), (t, a), (t, if a = ''ON'' then ''1'' else ''0''),
       (t, if a = ''ON'' then ''1'' else ''0''), (t, JSON_stringify_cmd a),
       (t, JSON_stringify_cmd a)])"
  by (simp add: publishManyFormats_def formats_def upto.simps)

subsection \<open>The decision\<close>

lemma recommend_simps:
  "dec_action (recommend r x) = ''RECOMMEND''" "dec_reason (recommend r x) = r"
  "dec_extra (recommend r x) = x" "dec_calls (recommend r x) = []"
  by (simp_all add: recommend_def)

lemma actuate_calls:
  "dec_calls (actuate cfg pub d a r1 r2) = snd (publishManyFormats cfg pub (zoneToRelayTopic d) a)"
  by (simp add: actuate_def split: prod.split)

lemma actuate_action:
  "dec_action (actuate cfg pub d a r1 r2) =
     (if successes (fst (publishManyFormats cfg pub (zoneToRelayTopic d) a)) \<noteq> [] then a
      else ''RECOMMEND'')"
  by (simp add: actuate_def split: prod.split)

lemma actuate_reason:
  "dec_reason (actuate cfg pub d a r1 r2) =
     (if successes (fst (publishManyFormats cfg pub (zoneToRelayTopic d) a)) \<noteq> [] then r1
      else r2)"
  by (simp add: actuate_def split: prod.split)

lemma actuate_OFF_no_ON:
  "dec_action (actuate cfg pub d ''OFF'' r1 r2) \<noteq> ''ON''"
  "c \<in> set (dec_calls (actuate cfg pub d ''OFF'' r1 r2)) \<Longrightarrow> snd c \<notin> ON_payloads"
proof -
  show "dec_action (actuate cfg pub d ''OFF'' r1 r2) \<noteq> ''ON''"
    by (simp add: actuate_action)
  assume "c \<in> set (dec_calls (actuate cfg pub d ''OFF'' r1 r2))"
  then have "c \<in> {zoneToRelayTopic d} \<times> OFF_payloads"
    using publishManyFormats_calls[of cfg pub "zoneToRelayTopic d" "''OFF''"]
    unfolding actuate_calls formats_OFF by blast
  then show "snd c \<notin> ON_payloads"
    using ON_OFF_disjoint by auto
qed

lemma decide_watchdog:
  assumes "relayIsOn" "now - lastOn > MAX_ON_MS cfg"
  shows "dec_action (decide cfg pub now d soil t_on t_off lastOn lastOff relayIsOn) = ''OFF''"
    and "dec_reason (decide cfg pub now d soil t_on t_off lastOn lastOff relayIsOn) = ''watchdog_forced_off''"
    and "dec_calls (decide cfg pub now d soil t_on t_off lastOn lastOff relayIsOn)
          = snd (publishManyFormats cfg pub (zoneToRelayTopic d) ''OFF'')"
  using assms by (simp_all add: decide_def split: prod.split)

lemma decide_relay_on:
  assumes "relayIsOn" "\<not> now - lastOn > MAX_ON_MS cfg"
  shows "decide cfg pub now d soil t_on t_off lastOn lastOff relayIsOn =
     (case soil of
        None \<Rightarrow> recommend ''no_numeric_soil'' NoExtra
      | Some x \<Rightarrow>
          if x \<ge> of_int t_off
          then (if max 0 (MIN_ON_MS cfg - (now - lastOn)) > 0
                then recommend ''min_on_not_elapsed'' (MinOnLeft (max 0 (MIN_ON_MS cfg - (now - lastOn))))
                else if now - lastOff < MIN_INTERVAL_BETWEEN_OFF_MS cfg
                then recommend ''min_interval_between_off_not_elapsed'' (SinceLastOff (now - lastOff))
                else actuate cfg pub d ''OFF'' ''soil_above_threshold_off'' ''publish_failed_off'')
          else recommend ''no_action'' NoExtra)"
  using assms unfolding decide_def by (simp add: Let_def split: option.split)

lemma decide_relay_off:
  assumes "\<not> relayIsOn"
  shows "decide cfg pub now d soil t_on t_off lastOn lastOff relayIsOn =
     (case soil of
        None \<Rightarrow> recommend ''no_numeric_soil'' NoExtra
      | Some x \<Rightarrow>
          if x \<le> of_int t_on
          then (if DEBUG_ALLOW_REON cfg
                then actuate cfg pub d ''ON'' ''debug_force_on'' ''debug_publish_failed_on''
                else if fst (onGate cfg now lastOn lastOff)
                then actuate cfg pub d ''ON'' ''soil_below_threshold_on'' ''publish_failed_on''
                else recommend (snd (onGate cfg now lastOn lastOff)) NoExtra)
          else recommend ''no_action'' NoExtra)"
  using assms unfolding decide_def by (simp add: Let_def case_prod_beta split: option.split)

lemma onGate_fst:
  "fst (onGate cfg now lastOn lastOff) =
     (if lastOff > lastOn then now - lastOff \<ge> MIN_INTERVAL_AFTER_OFF_MS cfg
      else now - lastOn \<ge> MIN_INTERVAL_BETWEEN_ON_MS cfg)"
  by (simp add: onGate_def Let_def)

lemma onGate_snd_blocked:
  "\<not> fst (onGate cfg now lastOn lastOff) \<Longrightarrow>
   snd (onGate cfg now lastOn lastOff) =
     (if lastOff > lastOn
      then ''blocked_after_off_wait '' @ show_int (now - lastOff) @ ''ms<''
             @ show_int (MIN_INTERVAL_AFTER_OFF_MS cfg)
      else ''blocked_by_min_between_on '' @ show_int (now - lastOn) @ ''ms<''
             @ show_int (MIN_INTERVAL_BETWEEN_ON_MS cfg))"
  by (simp add: onGate_def Let_def split: if_splits)

lemma decide_ON_relay_off:
  assumes "dec_action (decide cfg pub now d soil t_on t_off lastOn lastOff relayIsOn) = ''ON''
           \<or> (\<exists>c \<in> set (dec_calls (decide cfg pub now d soil t_on t_off lastOn lastOff relayIsOn)).
                 snd c \<in> ON_payloads)"
  shows "\<not> relayIsOn"
proof
  assume r: "relayIsOn"
  show False
  proof (cases "now - lastOn > MAX_ON_MS cfg")
    case True
    have "set (dec_calls (decide cfg pub now d soil t_on t_off lastOn lastOff relayIsOn))
            \<subseteq> {zoneToRelayTopic d} \<times> OFF_payloads"
      unfolding decide_watchdog(3)[OF r True]
      using publishManyFormats_calls[of cfg pub "zoneToRelayTopic d" "''OFF''"]
      unfolding formats_OFF .
    then show False
      using assms decide_watchdog(1)[OF r True] ON_OFF_disjoint by fastforce
  next
    case False
    show False
      using assms actuate_OFF_no_ON
      unfolding decide_relay_on[OF r False]
      by (auto simp: recommend_simps split: option.splits if_splits)
  qed
qed

lemma decide_ON_dry:
  assumes "dec_action (decide cfg pub now d soil t_on t_off lastOn lastOff relayIsOn) = ''ON''
           \<or> (\<exists>c \<in> set (dec_calls (decide cfg pub now d soil t_on t_off lastOn lastOff relayIsOn)).
                 snd c \<in> ON_payloads)"
  shows "\<exists>x. soil = Some x \<and> x \<le> of_int t_on"
  using assms decide_ON_relay_off[OF assms]
  by (auto simp: decide_relay_off recommend_simps split: option.splits if_splits)

lemma decide_ON_gate:
  assumes "dec_action (decide cfg pub now d soil t_on t_off lastOn lastOff relayIsOn) = ''ON''
           \<or> (\<exists>c \<in> set (dec_calls (decide cfg pub now d soil t_on t_off lastOn lastOff relayIsOn)).
                 snd c \<in> ON_payloads)"
    and "\<not> DEBUG_ALLOW_REON cfg"
  shows "fst (onGate cfg now lastOn lastOff)"
  using assms decide_ON_relay_off[OF assms(1)]
  by (auto simp: decide_relay_off recommend_simps split: option.splits if_splits)

lemma decide_ON_soil:
  assumes "dec_action (decide cfg pub now d soil t_on t_off lastOn lastOff relayIsOn) = ''ON''"
  shows "\<exists>x. soil = Some x"
  using decide_ON_dry[of cfg pub now d soil t_on t_off lastOn lastOff relayIsOn] assms by blast

lemma decide_debug:
  assumes "DEBUG_ALLOW_REON cfg" "\<not> relayIsOn" "soil = Some x" "x \<le> of_int t_on"
  shows "decide cfg pub now d soil t_on t_off lastOn lastOff relayIsOn
           = actuate cfg pub d ''ON'' ''debug_force_on'' ''debug_publish_failed_on''"
  using assms by (simp add: decide_relay_off)

lemma actuate_ON_no_OFF:
  assumes "c \<in> set (dec_calls (actuate cfg pub d ''ON'' r1 r2))"
  shows "snd c \<notin> OFF_payloads"
proof -
  have "c \<in> {zoneToRelayTopic d} \<times> ON_payloads"
    using assms publishManyFormats_calls[of cfg pub "zoneToRelayTopic d" "''ON''"]
    unfolding actuate_calls formats_ON by blast
  then show ?thesis
    using ON_OFF_disjoint by auto
qed

lemma decide_relay_off_no_OFF:
  assumes "\<not> relayIsOn"
    and "c \<in> set (dec_calls (decide cfg pub now d soil t_on t_off lastOn lastOff relayIsOn))"
  shows "snd c \<notin> OFF_payloads"
  using assms(2) actuate_ON_no_OFF
  unfolding decide_relay_off[OF assms(1)]
  by (auto simp: recommend_simps split: option.splits if_splits)

lemma decide_min_on:
  assumes "relayIsOn" "now - lastOn < MIN_ON_MS cfg" "MIN_ON_MS cfg \<le> MAX_ON_MS cfg"
  shows "dec_action (decide cfg pub now d soil t_on t_off lastOn lastOff relayIsOn) = ''RECOMMEND''"
    and "dec_calls (decide cfg pub now d soil t_on t_off lastOn lastOff relayIsOn) = []"
    and "soil = Some x \<Longrightarrow> x \<ge> of_int t_off \<Longrightarrow>
         decide cfg pub now d soil t_on t_off lastOn lastOff relayIsOn
           = recommend ''min_on_not_elapsed'' (MinOnLeft (MIN_ON_MS cfg - (now - lastOn)))"
proof -
  have nowd: "\<not> now - lastOn > MAX_ON_MS cfg"
    using assms(2,3) by linarith
  show "dec_action (decide cfg pub now d soil t_on t_off lastOn lastOff relayIsOn) = ''RECOMMEND''"
    unfolding decide_relay_on[OF assms(1) nowd]
    using assms(2) by (simp add: recommend_simps split: option.split)
  show "dec_calls (decide cfg pub now d soil t_on t_off lastOn lastOff relayIsOn) = []"
    unfolding decide_relay_on[OF assms(1) nowd]
    using assms(2) by (simp add: recommend_simps split: option.split)
  show "soil = Some x \<Longrightarrow> x \<ge> of_int t_off \<Longrightarrow>
         decide cfg pub now d soil t_on t_off lastOn lastOff relayIsOn
           = recommend ''min_on_not_elapsed'' (MinOnLeft (MIN_ON_MS cfg - (now - lastOn)))"
    unfolding decide_relay_on[OF assms(1) nowd]
    using assms(2) by simp
qed

lemma decide_all_fail:
  assumes fail: "\<forall>t pl k. \<not> pub t pl k"
    and tried: "dec_calls (decide cfg pub now d soil t_on t_off lastOn lastOff relayIsOn) \<noteq> []"
    and nowd: "\<not> (relayIsOn \<and> now - lastOn > MAX_ON_MS cfg)"
  shows "dec_action (decide cfg pub now d soil t_on t_off lastOn lastOff relayIsOn) = ''RECOMMEND''
       \<and> dec_reason (decide cfg pub now d soil t_on t_off lastOn lastOff relayIsOn)
           \<in> {''publish_failed_on'', ''debug_publish_failed_on'', ''publish_failed_off''}"
proof (cases relayIsOn)
  case True
  then have n: "\<not> now - lastOn > MAX_ON_MS cfg" using nowd by simp
  show ?thesis
    using tried publishManyFormats_all_fail[OF fail]
    unfolding decide_relay_on[OF True n]
    by (auto simp: recommend_simps actuate_action actuate_reason split: option.splits if_splits)
next
  case False
  show ?thesis
    using tried publishManyFormats_all_fail[OF fail]
    unfolding decide_relay_off[OF False]
    by (auto simp: recommend_simps actuate_action actuate_reason split: option.splits if_splits)
qed

lemma commit_ON:
  assumes parse: "safeParseJSON e m = Some (Object p)"
    and db: "\<not> rejects e FindDeviceState" "\<not> rejects e CreateDeviceState"
      "\<not> rejects e SaveDeviceState"
    and logged: "logged (snd (handleTelemetryMessage cfg e topic m w)) = Some v" "action v = ''ON''"
  shows "\<exists>s'. deviceStates (fst (handleTelemetryMessage cfg e topic m w)) (telemetry_deviceId p)
                 = Some s' \<and> relayState s' \<and> lastOnTs s' = Some (Date_now e)"
    and "\<exists>x. telemetry_soilPct e p = Some x"
proof -
  let ?st = "fst (loadState e p w)"
  let ?w1 = "snd (loadState e p w)"
  let ?d = "cycle_decision cfg e p ?st ?w1"
  have h: "handleTelemetryMessage cfg e topic m w = runCycle cfg e p ?st ?w1"
    by (rule handle_Object[OF parse])
  have a: "dec_action ?d = ''ON''"
    using runCycle_logged[of cfg e p ?st ?w1] logged unfolding h by auto
  obtain st where st: "?st = Some st"
    using loadState_Some[OF db(1,2)] by blast
  show "\<exists>s'. deviceStates (fst (handleTelemetryMessage cfg e topic m w)) (telemetry_deviceId p)
                 = Some s' \<and> relayState s' \<and> lastOnTs s' = Some (Date_now e)"
    using a unfolding h runCycle_deviceStates st
    by (simp add: db(3) toStored_def persistState_ON)
  show "\<exists>x. telemetry_soilPct e p = Some x"
    using decide_ON_soil[OF a[unfolded cycle_decision_loaded]] .
qed

lemma redelivery_step:
  assumes parse: "safeParseJSON e m = Some (Object p)"
    and db: "\<not> rejects e FindDeviceState"
    and stored: "deviceStates w (telemetry_deviceId p) = Some s"
    and on: "relayState s" "lastOnTs s = Some t1"
    and soil: "telemetry_soilPct e p = Some x"
    and soon: "Date_now e - t1 < MIN_ON_MS cfg" "Date_now e - t1 \<le> MAX_ON_MS cfg"
  shows "cycle_decision cfg e p (fst (loadState e p w)) (snd (loadState e p w)) =
           (if x \<ge> of_int (threshold_off (cycle_thresholds e w p))
            then recommend ''min_on_not_elapsed'' (MinOnLeft (MIN_ON_MS cfg - (Date_now e - t1)))
            else recommend ''no_action'' NoExtra)"
proof -
  let ?st = "fst (loadState e p w)"
  have st: "?st = Some ((hydrate s)\<lparr> lastTelemetry := p \<rparr>)"
    by (rule loadState_found[OF db stored])
  have r: "state_relayIsOn ?st" and l: "state_lastOnTs ?st = t1"
    using on by (simp_all add: st state_relayIsOn_def state_lastOnTs_def hydrate_def nullish_def)
  have nowd: "\<not> Date_now e - t1 > MAX_ON_MS cfg"
    using soon(2) by simp
  have left: "max 0 (MIN_ON_MS cfg - (Date_now e - t1)) = MIN_ON_MS cfg - (Date_now e - t1)"
    "max 0 (MIN_ON_MS cfg - (Date_now e - t1)) > 0"
    using soon(1) by auto
  show ?thesis
    unfolding cycle_decision_loaded l
    using decide_relay_on[OF r nowd] left by (simp add: soil)
qed

lemma no_action_not_blocked:
  "\<not> between_on_blocked ''no_action''" "\<not> between_on_blocked ''min_on_not_elapsed''"
  by (simp_all add: between_on_blocked_def)

text \<open>
  Outside the watchdog branch a relay command whose encodings all fail ends in a
  \<open>RECOMMEND\<close> with a publish-failure reason, and the record keeps its \<open>relayState\<close>
  and its \<open>lastOnTs\<close>: \<open>persistEvent\<close> refreshes \<open>lastActionTs\<close> only.
\<close>

lemma publish_failure_recommends:
  assumes parse: "safeParseJSON e m = Some (Object p)"
    and fail: "\<forall>t pl k. \<not> mqtt_publish e t pl k"
    and tried: "publish_calls (snd (handleTelemetryMessage cfg e topic m w)) \<noteq> []"
    and nowd: "\<forall>s. deviceStates w (telemetry_deviceId p) = Some s \<and> relayState s
                 \<longrightarrow> \<not> Date_now e - nullish (lastOnTs s) 0 > MAX_ON_MS cfg"
  shows "(\<exists>v. logged (snd (handleTelemetryMessage cfg e topic m w)) = Some v
              \<and> action v = ''RECOMMEND''
              \<and> reason v \<in> {''publish_failed_on'', ''debug_publish_failed_on'', ''publish_failed_off''})
       \<and> (\<forall>s'. deviceStates (fst (handleTelemetryMessage cfg e topic m w)) (telemetry_deviceId p)
                  = Some s' \<longrightarrow>
               relayState s' = (case deviceStates w (telemetry_deviceId p) of
                                  None \<Rightarrow> False | Some s \<Rightarrow> relayState s)
               \<and> lastOnTs s' = (case deviceStates w (telemetry_deviceId p) of
                                  None \<Rightarrow> None | Some s \<Rightarrow> lastOnTs s))
       \<and> (\<forall>d. d \<noteq> telemetry_deviceId p \<longrightarrow>
               deviceStates (fst (handleTelemetryMessage cfg e topic m w)) d = deviceStates w d)"
proof -
  let ?st = "fst (loadState e p w)"
  let ?w1 = "snd (loadState e p w)"
  let ?d = "cycle_decision cfg e p ?st ?w1"
  have h: "handleTelemetryMessage cfg e topic m w = runCycle cfg e p ?st ?w1"
    by (rule handle_Object[OF parse])
  have nw: "\<not> (state_relayIsOn ?st \<and> Date_now e - state_lastOnTs ?st > MAX_ON_MS cfg)"
    using loadState_relayIsOn[of e p w] nowd by auto
  have t: "dec_calls ?d \<noteq> []"
    using tried unfolding h runCycle_calls .
  have d: "dec_action ?d = ''RECOMMEND''"
    "dec_reason ?d \<in> {''publish_failed_on'', ''debug_publish_failed_on'', ''publish_failed_off''}"
    using decide_all_fail[OF fail t[unfolded cycle_decision_loaded] nw]
    unfolding cycle_decision_loaded by simp_all
  have 1: "\<exists>v. logged (snd (handleTelemetryMessage cfg e topic m w)) = Some v
              \<and> action v = ''RECOMMEND''
              \<and> reason v \<in> {''publish_failed_on'', ''debug_publish_failed_on'', ''publish_failed_off''}"
    using runCycle_logged[of cfg e p ?st ?w1] d unfolding h by auto
  have 2: "\<forall>s'. deviceStates (fst (handleTelemetryMessage cfg e topic m w)) (telemetry_deviceId p)
                  = Some s' \<longrightarrow>
               relayState s' = (case deviceStates w (telemetry_deviceId p) of
                                  None \<Rightarrow> False | Some s \<Rightarrow> relayState s)
               \<and> lastOnTs s' = (case deviceStates w (telemetry_deviceId p) of
                                  None \<Rightarrow> None | Some s \<Rightarrow> lastOnTs s)"
  proof (intro allI impI)
    fix s'
    assume a: "deviceStates (fst (handleTelemetryMessage cfg e topic m w)) (telemetry_deviceId p) = Some s'"
    show "relayState s' = (case deviceStates w (telemetry_deviceId p) of
                                  None \<Rightarrow> False | Some s \<Rightarrow> relayState s)
               \<and> lastOnTs s' = (case deviceStates w (telemetry_deviceId p) of
                                  None \<Rightarrow> None | Some s \<Rightarrow> lastOnTs s)"
    proof (cases "?st = None \<or> rejects e SaveDeviceState")
      case True
      then have "deviceStates ?w1 (telemetry_deviceId p) = Some s'"
        using a unfolding h runCycle_deviceStates by (auto split: option.splits)
      then show ?thesis by (rule loadState_store_relay)
    next
      case False
      then obtain st where st: "?st = Some st" and sv: "\<not> rejects e SaveDeviceState" by auto
      have "s' = toStored (persistState (Date_now e) ''RECOMMEND'' st)"
        using a d(1) unfolding h runCycle_deviceStates st by (simp add: sv)
      then have "relayState s' = relayState st" "lastOnTs s' = lastOnTs st"
        by (simp_all add: toStored_def persistState_RECOMMEND)
      then show ?thesis using loadState_state_relay[OF st] by simp
    qed
  qed
  have 3: "\<forall>d. d \<noteq> telemetry_deviceId p \<longrightarrow>
               deviceStates (fst (handleTelemetryMessage cfg e topic m w)) d = deviceStates w d"
    unfolding h by (simp add: runCycle_others loadState_others)
  show ?thesis using 1 2 3 by blast
qed

section \<open>The concrete cycles, evaluated\<close>

lemma env_at_simps:
  "Date_now (env_at n ok) = n" "mqtt_publish (env_at n ok) = (\<lambda>_ _ _. ok)"
  "rejects (env_at n ok) c = False" "OPENWEATHER_API_KEY (env_at n ok) = False"
  by (simp_all add: env_at_def)

lemma world_with_simps:
  "deviceStates (world_with ds) = ds" "irrigationEvents (world_with ds) = []"
  "cropProfiles (world_with ds) = Map.empty"
  by (simp_all add: world_with_def)

lemma one_device_states: "deviceStates (one_device s) = [deviceId s \<mapsto> s]"
  by (simp add: one_device_def world_with_simps)

lemma one_device_simps:
  "deviceStates (one_device (stored_device dev r t p0)) = [dev \<mapsto> stored_device dev r t p0]"
  "irrigationEvents (one_device s) = []" "cropProfiles (one_device s) = Map.empty"
  by (simp_all add: one_device_def world_with_simps stored_device_def)

lemma no_devices_simps:
  "deviceStates no_devices = Map.empty" "irrigationEvents no_devices = []"
  "cropProfiles no_devices = Map.empty"
  by (simp_all add: no_devices_def world_with_simps)

lemma retry_default: "MQTT_RETRY_COUNT default_config = 1" "MQTT_RETRY_COUNT debug_config = 1"
  by (simp_all add: default_config_def debug_config_def)

lemma reading_deviceId: "telemetry_deviceId (reading_from ''A'' soil) = ''A''"
  by (simp add: telemetry_deviceId_def reading_from_def or_str_def truthy_str_def nullish_def)

lemma reading_soilPct: "telemetry_soilPct e (reading_from dev soil) = soil"
  by (cases soil) (simp_all add: telemetry_soilPct_def reading_from_def normalizeSoil_def)

lemma reading_cropName: "telemetry_cropName (reading_from dev soil) = ''tomato''"
  by (simp add: telemetry_cropName_def reading_from_def or_str_def truthy_str_def nullish_def
      toLowerCase_def toLowerCase_char_def)

lemma reading_profile:
  "profileForCompute (env_at n ok) (world_with ds) (reading_from dev soil) = profile_of 40 10 5 (3 / 4)"
  by (simp add: profileForCompute_def env_at_simps world_with_simps reading_cropName profile_of_def)

lemma reading_forecast: "cycle_forecast (env_at n ok) (reading_from dev soil) = None"
  by (simp add: cycle_forecast_def telemetry_lat_def reading_from_def or_num_def truthy_num_def)

lemma reading_threshold_on:
  "threshold_on (cycle_thresholds (env_at n ok) (world_with ds) (reading_from dev soil)) = 30"
  unfolding cycle_thresholds_def reading_profile reading_forecast
  by (simp add: threshold_on_eq threshold_eval reading_from_def telemetry_temperature_def)

lemma reading_threshold_off:
  "threshold_off (cycle_thresholds (env_at n ok) (world_with ds) (reading_from dev soil)) = 35"
  using reading_threshold_on[of n ok ds dev soil]
  unfolding cycle_thresholds_def reading_profile reading_forecast threshold_off_eq
  by (simp add: threshold_eval)

lemma scenario_thresholds:
  "cropProfiles w = Map.empty \<Longrightarrow>
   threshold_on (cycle_thresholds (env_at n ok) w (reading_from dev soil)) = 30
   \<and> threshold_off (cycle_thresholds (env_at n ok) w (reading_from dev soil)) = 35"
  using reading_threshold_on[of n ok "deviceStates w" dev soil]
    reading_threshold_off[of n ok "deviceStates w" dev soil]
    cycle_thresholds_cong[of "world_with (deviceStates w)" w "env_at n ok" "reading_from dev soil"]
  by (simp add: world_with_simps)

lemma scenario_found:
  "fst (loadState (env_at n ok) (reading_from ''A'' soil) (one_device (stored_device ''A'' r t p0)))
     = Some ((hydrate (stored_device ''A'' r t p0))\<lparr> lastTelemetry := reading_from ''A'' soil \<rparr>)"
  by (rule loadState_found) (simp_all add: env_at_simps one_device_simps reading_deviceId)

lemma scenario_fresh:
  "fst (loadState (env_at n ok) (reading_from ''A'' soil) no_devices)
     = Some (hydrate \<lparr> deviceId = ''A'', relayState = False, lastActionTs = None,
                      lastOnTs = None, lastTelemetry = reading_from ''A'' soil \<rparr>)"
  using loadState_fresh[of "env_at n ok" no_devices "reading_from ''A'' soil"]
  by (simp add: env_at_simps no_devices_simps reading_deviceId)

lemma scenario_found_decision:
  "cycle_decision cfg (env_at n ok) (reading_from ''A'' soil)
     (fst (loadState (env_at n ok) (reading_from ''A'' soil) (one_device (stored_device ''A'' r t p0))))
     (snd (loadState (env_at n ok) (reading_from ''A'' soil) (one_device (stored_device ''A'' r t p0))))
   = decide cfg (\<lambda>_ _ _. ok) n ''A'' soil 30 35 (nullish t 0) 0 r"
  by (subst cycle_decision_loaded)
     (simp add: scenario_found scenario_thresholds one_device_simps env_at_simps reading_deviceId
        reading_soilPct state_lastOnTs_def state_relayIsOn_def hydrate_def,
      simp add: stored_device_def)

lemma scenario_fresh_decision:
  "cycle_decision cfg (env_at n ok) (reading_from ''A'' soil)
     (fst (loadState (env_at n ok) (reading_from ''A'' soil) no_devices))
     (snd (loadState (env_at n ok) (reading_from ''A'' soil) no_devices))
   = decide cfg (\<lambda>_ _ _. ok) n ''A'' soil 30 35 0 0 False"
  by (subst cycle_decision_loaded)
     (simp add: scenario_fresh scenario_thresholds no_devices_simps env_at_simps reading_deviceId reading_soilPct
      state_lastOnTs_def state_relayIsOn_def hydrate_def nullish_def)

lemma dry_fresh_decision:
  "decide default_config (\<lambda>_ _ _. True) 1000000 ''A'' (Some 28) 30 35 0 0 False
     = \<lparr> dec_action = ''ON'', dec_reason = ''soil_below_threshold_on'',
         dec_extra = PublishResults \<lparr> successes = [''plain'', ''numeric'', ''json''], failures = [] \<rparr>,
         dec_calls = [(''esp32/relay1'', ''ON''), (''esp32/relay1'', ''1''),
                      (''esp32/relay1'', JSON_stringify_cmd ''ON'')] \<rparr>"
  by (simp add: decide_relay_off onGate_fst actuate_def publish_up retry_default zoneToRelayTopic_def)
     (simp add: default_config_def)

lemma first_delivery_eq:
  "first_delivery =
     runCycle default_config (env_at 1000000 True) (reading_from ''A'' (Some 28))
       (fst (loadState (env_at 1000000 True) (reading_from ''A'' (Some 28)) no_devices))
       (snd (loadState (env_at 1000000 True) (reading_from ''A'' (Some 28)) no_devices))"
  unfolding first_delivery_def by (rule handle_Object[OF parse_Parsed])

lemma first_delivery_decision:
  "cycle_decision default_config (env_at 1000000 True) (reading_from ''A'' (Some 28))
       (fst (loadState (env_at 1000000 True) (reading_from ''A'' (Some 28)) no_devices))
       (snd (loadState (env_at 1000000 True) (reading_from ''A'' (Some 28)) no_devices))
   = \<lparr> dec_action = ''ON'', dec_reason = ''soil_below_threshold_on'',
       dec_extra = PublishResults \<lparr> successes = [''plain'', ''numeric'', ''json''], failures = [] \<rparr>,
       dec_calls = [(''esp32/relay1'', ''ON''), (''esp32/relay1'', ''1''),
                    (''esp32/relay1'', JSON_stringify_cmd ''ON'')] \<rparr>"
  unfolding scenario_fresh_decision by (rule dry_fresh_decision)

lemma first_delivery_logged:
  "map_option action (logged (snd first_delivery)) = Some ''ON''"
  unfolding first_delivery_eq runCycle_action first_delivery_decision by simp

lemma first_delivery_store:
  "deviceStates (fst first_delivery) ''A''
     = Some (stored_device ''A'' True (Some 1000000) (reading_from ''A'' (Some 28)))"
  using fresh_store[of "env_at 1000000 True" no_devices "reading_from ''A'' (Some 28)" default_config]
  unfolding first_delivery_eq first_delivery_decision
  by (simp add: env_at_simps no_devices_simps reading_deviceId persistState_def toStored_def
      hydrate_def stored_device_def)

lemma first_delivery_crops: "cropProfiles (fst first_delivery) = Map.empty"
  unfolding first_delivery_def handle_cropProfiles by (rule no_devices_simps)

lemma second_delivery_eq:
  "second_delivery =
     runCycle default_config (env_at 1010000 True) (reading_from ''A'' (Some 28))
       (fst (loadState (env_at 1010000 True) (reading_from ''A'' (Some 28)) (fst first_delivery)))
       (snd (loadState (env_at 1010000 True) (reading_from ''A'' (Some 28)) (fst first_delivery)))"
  unfolding second_delivery_def by (rule handle_Object[OF parse_Parsed])

lemma second_delivery_decision:
  "cycle_decision default_config (env_at 1010000 True) (reading_from ''A'' (Some 28))
       (fst (loadState (env_at 1010000 True) (reading_from ''A'' (Some 28)) (fst first_delivery)))
       (snd (loadState (env_at 1010000 True) (reading_from ''A'' (Some 28)) (fst first_delivery)))
   = recommend ''no_action'' NoExtra"
proof -
  have s: "deviceStates (fst first_delivery) (telemetry_deviceId (reading_from ''A'' (Some 28)))
             = Some (stored_device ''A'' True (Some 1000000) (reading_from ''A'' (Some 28)))"
    by (simp add: reading_deviceId first_delivery_store)
  have db: "\<not> rejects (env_at 1010000 True) FindDeviceState"
    by (simp add: env_at_simps)
  show ?thesis
    unfolding found_decision[OF db s]
    by (simp add: scenario_thresholds first_delivery_crops env_at_simps reading_soilPct
        stored_device_def nullish_def decide_relay_on default_config_def)
qed

lemma off_delivery_eq:
  "off_delivery =
     runCycle default_config (env_at 1070000 True) (reading_from ''A'' (Some 50))
       (fst (loadState (env_at 1070000 True) (reading_from ''A'' (Some 50))
              (one_device (stored_device ''A'' True (Some 1000000) (reading_from ''A'' (Some 28))))))
       (snd (loadState (env_at 1070000 True) (reading_from ''A'' (Some 50))
              (one_device (stored_device ''A'' True (Some 1000000) (reading_from ''A'' (Some 28))))))"
  unfolding off_delivery_def by (rule handle_Object[OF parse_Parsed])

lemma off_delivery_decision:
  "dec_action (decide default_config (\<lambda>_ _ _. True) 1070000 ''A'' (Some 50) 30 35 1000000 0 True)
     = ''OFF''"
  "dec_reason (decide default_config (\<lambda>_ _ _. True) 1070000 ''A'' (Some 50) 30 35 1000000 0 True)
     = ''soil_above_threshold_off''"
  by (simp_all add: decide_relay_on default_config_def actuate_action actuate_reason publish_up)

lemma off_delivery_logged:
  "map_option action (logged (snd off_delivery)) = Some ''OFF''"
  "map_option reason (logged (snd off_delivery)) = Some ''soil_above_threshold_off''"
  unfolding off_delivery_eq runCycle_action scenario_found_decision
  by (simp_all add: off_delivery_decision nullish_def)

lemma off_delivery_store:
  "deviceStates (fst off_delivery) ''A''
     = Some \<lparr> deviceId = ''A'', relayState = False, lastActionTs = Some 1070000,
              lastOnTs = Some 1000000, lastTelemetry = reading_from ''A'' (Some 50) \<rparr>"
proof -
  let ?e = "env_at 1070000 True"
  let ?p = "reading_from ''A'' (Some 50)"
  let ?s = "stored_device ''A'' True (Some 1000000) (reading_from ''A'' (Some 28))"
  have db: "\<not> rejects ?e FindDeviceState" "\<not> rejects ?e SaveDeviceState"
    by (simp_all add: env_at_simps)
  have st: "deviceStates (one_device ?s) (telemetry_deviceId ?p) = Some ?s"
    by (simp add: one_device_simps reading_deviceId)
  have "deviceStates (fst off_delivery) (telemetry_deviceId ?p)
          = Some (toStored (persistState (Date_now ?e) ''OFF'' ((hydrate ?s)\<lparr> lastTelemetry := ?p \<rparr>)))"
    unfolding off_delivery_eq found_store[OF db(1) st db(2)] scenario_found_decision
    by (simp add: off_delivery_decision nullish_def)
  then show ?thesis
    by (simp add: reading_deviceId env_at_simps persistState_def toStored_def hydrate_def
        stored_device_def)
qed

lemma off_delivery_crops: "cropProfiles (fst off_delivery) = Map.empty"
  unfolding off_delivery_def handle_cropProfiles by (rule one_device_simps)

lemma after_off_delivery_eq:
  "after_off_delivery =
     runCycle default_config (env_at 1072000 True) (reading_from ''A'' (Some 28))
       (fst (loadState (env_at 1072000 True) (reading_from ''A'' (Some 28)) (fst off_delivery)))
       (snd (loadState (env_at 1072000 True) (reading_from ''A'' (Some 28)) (fst off_delivery)))"
  unfolding after_off_delivery_def by (rule handle_Object[OF parse_Parsed])

lemma after_off_delivery_decision:
  "cycle_decision default_config (env_at 1072000 True) (reading_from ''A'' (Some 28))
       (fst (loadState (env_at 1072000 True) (reading_from ''A'' (Some 28)) (fst off_delivery)))
       (snd (loadState (env_at 1072000 True) (reading_from ''A'' (Some 28)) (fst off_delivery)))
   = decide default_config (\<lambda>_ _ _. True) 1072000 ''A'' (Some 28) 30 35 1000000 0 False"
proof -
  have s: "deviceStates (fst off_delivery) (telemetry_deviceId (reading_from ''A'' (Some 28)))
             = Some \<lparr> deviceId = ''A'', relayState = False, lastActionTs = Some 1070000,
                      lastOnTs = Some 1000000, lastTelemetry = reading_from ''A'' (Some 50) \<rparr>"
    by (simp add: reading_deviceId off_delivery_store)
  have db: "\<not> rejects (env_at 1072000 True) FindDeviceState"
    by (simp add: env_at_simps)
  show ?thesis
    unfolding found_decision[OF db s]
    by (simp add: scenario_thresholds off_delivery_crops env_at_simps reading_soilPct
        reading_deviceId nullish_def)
qed

lemma after_off_delivery_action:
  "dec_action (decide default_config (\<lambda>_ _ _. True) 1072000 ''A'' (Some 28) 30 35 1000000 0 False)
     = ''ON''"
  by (simp add: decide_relay_off onGate_fst actuate_action publish_up default_config_def)

lemma idle_delivery_eq:
  "idle_delivery =
     runCycle default_config (env_at 1000000 True) (reading_from ''A'' (Some 32))
       (fst (loadState (env_at 1000000 True) (reading_from ''A'' (Some 32)) no_devices))
       (snd (loadState (env_at 1000000 True) (reading_from ''A'' (Some 32)) no_devices))"
  unfolding idle_delivery_def by (rule handle_Object[OF parse_Parsed])

lemma idle_delivery_decision:
  "decide default_config (\<lambda>_ _ _. True) 1000000 ''A'' (Some 32) 30 35 0 0 False
     = recommend ''no_action'' NoExtra"
  by (simp add: decide_relay_off)

lemma watchdog_down_eq:
  "watchdog_down =
     runCycle default_config (env_at 20000000 False) (reading_from ''A'' (Some 28))
       (fst (loadState (env_at 20000000 False) (reading_from ''A'' (Some 28))
              (one_device (stored_device ''A'' True (Some 1000) (reading_from ''A'' (Some 28))))))
       (snd (loadState (env_at 20000000 False) (reading_from ''A'' (Some 28))
              (one_device (stored_device ''A'' True (Some 1000) (reading_from ''A'' (Some 28))))))"
  unfolding watchdog_down_def by (rule handle_Object[OF parse_Parsed])

lemma watchdog_down_decision:
  "dec_action (decide default_config (\<lambda>_ _ _. False) 20000000 ''A'' (Some 28) 30 35 1000 0 True)
     = ''OFF''"
  "dec_reason (decide default_config (\<lambda>_ _ _. False) 20000000 ''A'' (Some 28) 30 35 1000 0 True)
     = ''watchdog_forced_off''"
  "dec_calls (decide default_config (\<lambda>_ _ _. False) 20000000 ''A'' (Some 28) 30 35 1000 0 True)
     \<noteq> []"
  by (simp_all add: decide_watchdog default_config_def publish_down)

lemma watchdog_down_store:
  "deviceStates (fst watchdog_down) ''A''
     = Some \<lparr> deviceId = ''A'', relayState = False, lastActionTs = Some 20000000,
              lastOnTs = Some 1000, lastTelemetry = reading_from ''A'' (Some 28) \<rparr>"
proof -
  let ?e = "env_at 20000000 False"
  let ?p = "reading_from ''A'' (Some 28)"
  let ?s = "stored_device ''A'' True (Some 1000) ?p"
  have db: "\<not> rejects ?e FindDeviceState" "\<not> rejects ?e SaveDeviceState"
    by (simp_all add: env_at_simps)
  have st: "deviceStates (one_device ?s) (telemetry_deviceId ?p) = Some ?s"
    by (simp add: one_device_simps reading_deviceId)
  have "deviceStates (fst watchdog_down) (telemetry_deviceId ?p)
          = Some (toStored (persistState (Date_now ?e) ''OFF''
                    ((hydrate ?s)\<lparr> lastTelemetry := ?p \<rparr>)))"
    unfolding watchdog_down_eq found_store[OF db(1) st db(2)] scenario_found_decision
    by (simp add: watchdog_down_decision nullish_def)
  then show ?thesis
    by (simp add: reading_deviceId env_at_simps persistState_def toStored_def hydrate_def
        stored_device_def)
qed

lemma off_path_down_eq:
  "off_path_down =
     runCycle default_config (env_at 1070000 False) (reading_from ''A'' (Some 50))
       (fst (loadState (env_at 1070000 False) (reading_from ''A'' (Some 50))
              (one_device (stored_device ''A'' True (Some 1000000) (reading_from ''A'' (Some 28))))))
       (snd (loadState (env_at 1070000 False) (reading_from ''A'' (Some 50))
              (one_device (stored_device ''A'' True (Some 1000000) (reading_from ''A'' (Some 28))))))"
  unfolding off_path_down_def by (rule handle_Object[OF parse_Parsed])

lemma off_path_down_decision:
  "dec_action (decide default_config (\<lambda>_ _ _. False) 1070000 ''A'' (Some 50) 30 35 1000000 0 True)
     = ''RECOMMEND''"
  "dec_reason (decide default_config (\<lambda>_ _ _. False) 1070000 ''A'' (Some 50) 30 35 1000000 0 True)
     = ''publish_failed_off''"
  "dec_calls (decide default_config (\<lambda>_ _ _. False) 1070000 ''A'' (Some 50) 30 35 1000000 0 True)
     \<noteq> []"
  by (simp_all add: decide_relay_on default_config_def actuate_action actuate_reason actuate_calls
      publish_down)

lemma off_path_down_store:
  "deviceStates (fst off_path_down) ''A''
     = Some \<lparr> deviceId = ''A'', relayState = True, lastActionTs = Some 1070000,
              lastOnTs = Some 1000000, lastTelemetry = reading_from ''A'' (Some 50) \<rparr>"
proof -
  let ?e = "env_at 1070000 False"
  let ?p = "reading_from ''A'' (Some 50)"
  let ?s = "stored_device ''A'' True (Some 1000000) (reading_from ''A'' (Some 28))"
  have db: "\<not> rejects ?e FindDeviceState" "\<not> rejects ?e SaveDeviceState"
    by (simp_all add: env_at_simps)
  have st: "deviceStates (one_device ?s) (telemetry_deviceId ?p) = Some ?s"
    by (simp add: one_device_simps reading_deviceId)
  have "deviceStates (fst off_path_down) (telemetry_deviceId ?p)
          = Some (toStored (persistState (Date_now ?e) ''RECOMMEND''
                    ((hydrate ?s)\<lparr> lastTelemetry := ?p \<rparr>)))"
    unfolding off_path_down_eq found_store[OF db(1) st db(2)] scenario_found_decision
    by (simp add: off_path_down_decision nullish_def)
  then show ?thesis
    by (simp add: reading_deviceId env_at_simps persistState_def toStored_def hydrate_def
        stored_device_def)
qed

section \<open>The claims\<close>

text \<open>
  In the statements below a cycle \<^emph>\<open>logs\<close> the event it hands to
  \<open>logIrrigationEvent\<close> (\<open>logged\<close>), and it \<^emph>\<open>publishes\<close> what it passes to
  \<open>mqttClient.publish\<close> (\<open>publish_calls\<close>). Whether the event collection keeps the
  event is the subject of C1.
\<close>

text \<open>
  C1: every decision cycle appends exactly one \<open>IrrigationEvent\<close>, also for a no-op or a
  blocked outcome, and its action is in the vocabulary the event log accepts. The code
  misses this: the controller gives a no-op the action \<open>RECOMMEND\<close>, the enum of
  \<open>IrrigationEventSchema.action\<close> has \<open>RECOMMEND_ON\<close> and \<open>RECOMMEND_OFF\<close> but no
  \<open>RECOMMEND\<close>, \<open>create\<close> rejects the document and \<open>logIrrigationEvent\<close> swallows the
  rejection. A device seen for the first time that reports 32 percent, inside the band,
  is decided as \<open>RECOMMEND no_action\<close> and the collection stays empty; the same device
  reporting 28 percent is switched on and that event is appended.
\<close>

theorem recommend_event_not_appended:
  "map_option action (logged (snd idle_delivery)) = Some ''RECOMMEND''
   \<and> map_option reason (logged (snd idle_delivery)) = Some ''no_action''
   \<and> ''RECOMMEND'' \<notin> set IrrigationEvent_action_enum
   \<and> irrigationEvents (fst idle_delivery) = []
   \<and> length (irrigationEvents (fst first_delivery)) = 1"
proof -
  let ?e = "env_at 1000000 True"
  have a: "map_option action (logged (snd idle_delivery)) = Some ''RECOMMEND''"
    "map_option reason (logged (snd idle_delivery)) = Some ''no_action''"
    unfolding idle_delivery_eq runCycle_action scenario_fresh_decision idle_delivery_decision
    by (simp_all add: recommend_simps)
  have "irrigationEvents (fst idle_delivery)
          = irrigationEvents (snd (loadState ?e (reading_from ''A'' (Some 32)) no_devices))"
    unfolding idle_delivery_eq
    by (rule runCycle_events_rejected)
       (simp add: scenario_fresh_decision idle_delivery_decision recommend_simps
          RECOMMEND_not_in_enum)
  then have b: "irrigationEvents (fst idle_delivery) = []"
    by (simp add: loadState_events no_devices_simps)
  have "length (irrigationEvents (fst first_delivery))
          = length (irrigationEvents (snd (loadState ?e (reading_from ''A'' (Some 28)) no_devices))) + 1"
    unfolding first_delivery_eq
    by (rule runCycle_events_accepted)
       (simp_all add: first_delivery_decision IrrigationEvent_action_enum_def env_at_simps)
  then have c: "length (irrigationEvents (fst first_delivery)) = 1"
    by (simp add: loadState_events no_devices_simps)
  show ?thesis using a b c RECOMMEND_not_in_enum by blast
qed

text \<open>
  C2: when the controller attempts a relay command, on the ON evaluation, the OFF
  evaluation or the watchdog path, and every encoding fails to publish, the cycle logs a
  \<open>RECOMMEND\<close> with a publish-failure reason and the record takes no relay transition.
  The ON and OFF evaluations (and the debug variant) do that; the watchdog branch
  (lines 216-220) misses it: it never looks at the publish result. For a device on for
  more than five hours, with the broker down, no encoding goes out, and yet the cycle logs
  \<open>OFF\<close> with reason \<open>watchdog_forced_off\<close> and stores \<open>relayState = false\<close>. The
  OFF evaluation under the same broker logs \<open>RECOMMEND publish_failed_off\<close> and
  leaves the relay on.
\<close>

theorem watchdog_commits_unconfirmed_off:
  "successes (fst (publishManyFormats default_config (mqtt_publish (env_at 20000000 False))
                     ''esp32/relay1'' ''OFF'')) = []
   \<and> publish_calls (snd watchdog_down) \<noteq> []
   \<and> map_option action (logged (snd watchdog_down)) = Some ''OFF''
   \<and> map_option reason (logged (snd watchdog_down)) = Some ''watchdog_forced_off''
   \<and> map_option relayState
        (deviceStates (one_device (stored_device ''A'' True (Some 1000) (reading_from ''A'' (Some 28)))) ''A'')
       = Some True
   \<and> map_option relayState (deviceStates (fst watchdog_down) ''A'') = Some False
   \<and> publish_calls (snd off_path_down) \<noteq> []
   \<and> map_option action (logged (snd off_path_down)) = Some ''RECOMMEND''
   \<and> map_option reason (logged (snd off_path_down)) = Some ''publish_failed_off''
   \<and> map_option relayState (deviceStates (fst off_path_down) ''A'') = Some True"
proof -
  have 1: "publish_calls (snd watchdog_down) \<noteq> []"
    unfolding watchdog_down_eq runCycle_calls scenario_found_decision
    by (simp add: watchdog_down_decision nullish_def)
  have 2: "map_option action (logged (snd watchdog_down)) = Some ''OFF''"
    "map_option reason (logged (snd watchdog_down)) = Some ''watchdog_forced_off''"
    unfolding watchdog_down_eq runCycle_action scenario_found_decision
    by (simp_all add: watchdog_down_decision nullish_def)
  have 3: "publish_calls (snd off_path_down) \<noteq> []"
    unfolding off_path_down_eq runCycle_calls scenario_found_decision
    by (simp add: off_path_down_decision nullish_def)
  have 4: "map_option action (logged (snd off_path_down)) = Some ''RECOMMEND''"
    "map_option reason (logged (snd off_path_down)) = Some ''publish_failed_off''"
    unfolding off_path_down_eq runCycle_action scenario_found_decision
    by (simp_all add: off_path_down_decision nullish_def)
  show ?thesis
    using 1 2 3 4
    by (simp add: watchdog_down_store off_path_down_store one_device_states stored_device_def
        env_at_simps publish_down retry_default)
qed

text \<open>
  C3: the persistent record has a \<open>lastOffTs\<close> field, so the time of a committed OFF is
  there for the comparison \<open>lastOffTs > lastOnTs\<close> of later cycles. The code misses this:
  the controller assigns and reads \<open>state.lastOffTs\<close>, but \<open>DeviceStateSchema\<close> does not
  declare the path, so the value never reaches the collection and every cycle reads
  \<open>lastOffTs = 0\<close>. A device on since 1000000 is switched off at 1070000; two seconds
  later it reports 28 percent and is switched on again, through the between-ON branch,
  inside the five seconds of \<open>MIN_INTERVAL_AFTER_OFF_MS\<close>.
\<close>

theorem off_timestamp_not_persisted:
  "map_option action (logged (snd off_delivery)) = Some ''OFF''
   \<and> map_option relayState (deviceStates (fst off_delivery) ''A'') = Some False
   \<and> state_lastOffTs (fst (loadState (env_at 1072000 True) (reading_from ''A'' (Some 28))
                             (fst off_delivery))) = 0
   \<and> 1072000 - 1070000 < MIN_INTERVAL_AFTER_OFF_MS default_config
   \<and> map_option action (logged (snd after_off_delivery)) = Some ''ON''"
  unfolding off_delivery_logged off_delivery_store loadState_lastOffTs
  unfolding after_off_delivery_eq runCycle_action after_off_delivery_decision
    after_off_delivery_action
  by (simp add: default_config_def)

text \<open>
  C4: for a device whose record has \<open>relayState = true\<close> and a \<open>lastOnTs\<close> older than
  \<open>MAX_ON_MS\<close>, every telemetry event, whatever its soil reading, makes the controller
  publish the OFF command (and nothing else), log \<open>OFF\<close> with reason
  \<open>watchdog_forced_off\<close> and store \<open>relayState = false\<close>; neither the min-on gate nor
  the interval gates are consulted.
\<close>

theorem watchdog_forces_off:
  assumes parse: "safeParseJSON e m = Some (Object p)"
    and db: "\<not> rejects e FindDeviceState"
    and stored: "deviceStates w (telemetry_deviceId p) = Some s"
    and on: "relayState s"
    and old: "Date_now e - nullish (lastOnTs s) 0 > MAX_ON_MS cfg"
  shows "(\<exists>x. logged (snd (handleTelemetryMessage cfg e topic m w)) = Some x
              \<and> action x = ''OFF'' \<and> reason x = ''watchdog_forced_off'')
       \<and> publish_calls (snd (handleTelemetryMessage cfg e topic m w))
           = snd (publishManyFormats cfg (mqtt_publish e)
                    (zoneToRelayTopic (telemetry_deviceId p)) ''OFF'')
       \<and> set (publish_calls (snd (handleTelemetryMessage cfg e topic m w)))
           \<subseteq> {zoneToRelayTopic (telemetry_deviceId p)} \<times> OFF_payloads
       \<and> (\<not> rejects e SaveDeviceState \<longrightarrow>
            (\<exists>s'. deviceStates (fst (handleTelemetryMessage cfg e topic m w)) (telemetry_deviceId p)
                     = Some s' \<and> \<not> relayState s'))"
proof -
  let ?st = "fst (loadState e p w)"
  let ?w1 = "snd (loadState e p w)"
  have h: "handleTelemetryMessage cfg e topic m w = runCycle cfg e p ?st ?w1"
    by (rule handle_Object[OF parse])
  have st: "?st = Some ((hydrate s)\<lparr> lastTelemetry := p \<rparr>)"
    by (rule loadState_found[OF db stored])
  have r: "state_relayIsOn ?st" and l: "state_lastOnTs ?st = nullish (lastOnTs s) 0"
    using on by (simp_all add: st state_relayIsOn_def state_lastOnTs_def hydrate_def)
  let ?d = "cycle_decision cfg e p ?st ?w1"
  have d: "dec_action ?d = ''OFF''" "dec_reason ?d = ''watchdog_forced_off''"
    "dec_calls ?d = snd (publishManyFormats cfg (mqtt_publish e)
                      (zoneToRelayTopic (telemetry_deviceId p)) ''OFF'')"
    unfolding cycle_decision_def using decide_watchdog[OF r] old l by simp_all
  have 1: "\<exists>x. logged (snd (handleTelemetryMessage cfg e topic m w)) = Some x
              \<and> action x = ''OFF'' \<and> reason x = ''watchdog_forced_off''"
    using runCycle_logged[of cfg e p ?st ?w1] d unfolding h by auto
  have 2: "publish_calls (snd (handleTelemetryMessage cfg e topic m w))
           = snd (publishManyFormats cfg (mqtt_publish e)
                    (zoneToRelayTopic (telemetry_deviceId p)) ''OFF'')"
    unfolding h runCycle_calls d ..
  have 3: "set (publish_calls (snd (handleTelemetryMessage cfg e topic m w)))
           \<subseteq> {zoneToRelayTopic (telemetry_deviceId p)} \<times> OFF_payloads"
    unfolding 2 using publishManyFormats_calls[of cfg "mqtt_publish e" _ "''OFF''"]
    unfolding formats_OFF .
  have 4: "\<not> rejects e SaveDeviceState \<longrightarrow>
            (\<exists>s'. deviceStates (fst (handleTelemetryMessage cfg e topic m w)) (telemetry_deviceId p)
                     = Some s' \<and> \<not> relayState s')"
    unfolding h runCycle_deviceStates
    by (simp add: d[unfolded st] st persistState_def toStored_def)
  show ?thesis using 1 2 3 4 by blast
qed

theorem watchdog_forces_off_witness:
  "(\<exists>x. logged (snd watchdog_delivery) = Some x \<and> action x = ''OFF''
         \<and> reason x = ''watchdog_forced_off'')
   \<and> publish_calls (snd watchdog_delivery)
       = [(''esp32/relay1'', ''OFF''), (''esp32/relay1'', ''0''),
          (''esp32/relay1'', JSON_stringify_cmd ''OFF'')]
   \<and> (\<exists>s'. deviceStates (fst watchdog_delivery) ''A'' = Some s' \<and> \<not> relayState s')"
proof -
  let ?e = "env_at 20000000 True"
  let ?p = "reading_from ''A'' (Some 20)"
  let ?s = "stored_device ''A'' True (Some 1000) ?p"
  let ?w = "one_device ?s"
  have parse: "safeParseJSON ?e (Parsed (Object ?p)) = Some (Object ?p)"
    by (rule parse_Parsed)
  have db: "\<not> rejects ?e FindDeviceState"
    by (simp add: env_at_simps)
  have stored: "deviceStates ?w (telemetry_deviceId ?p) = Some ?s"
    by (simp add: one_device_simps reading_deviceId)
  have on: "relayState ?s"
    by (simp add: stored_device_def)
  have old: "Date_now ?e - nullish (lastOnTs ?s) 0 > MAX_ON_MS default_config"
    by (simp add: env_at_simps stored_device_def nullish_def default_config_def)
  from watchdog_forces_off[OF parse db stored on old, of "''esp32/telemetry''"]
  show ?thesis
    unfolding watchdog_delivery_def
    by (simp add: env_at_simps publish_up retry_default reading_deviceId zoneToRelayTopic_def)
qed

text \<open>
  C5, as stated, fails on the code: after the ON is committed the relay is on, so the
  second delivery does not enter the ON evaluation (line 227 asks for \<open>!relayIsOn\<close>) and
  the between-ON gate is never consulted. The second delivery is logged as
  \<open>RECOMMEND no_action\<close>.
\<close>

theorem redelivery_counterexample:
  "map_option action (logged (snd first_delivery)) = Some ''ON''
   \<and> map_option relayState (deviceStates (fst first_delivery) ''A'') = Some True
   \<and> publish_calls (snd second_delivery) = []
   \<and> map_option action (logged (snd second_delivery)) = Some ''RECOMMEND''
   \<and> map_option reason (logged (snd second_delivery)) = Some ''no_action''
   \<and> \<not> between_on_blocked ''no_action''"
  unfolding first_delivery_logged first_delivery_store
  unfolding second_delivery_eq runCycle_action runCycle_calls second_delivery_decision
  by (simp add: recommend_simps stored_device_def between_on_blocked_def)

text \<open>
  C5, amended: if processing a telemetry message commits an ON, then re-delivering the
  identical message within \<open>MIN_INTERVAL_BETWEEN_ON_MS\<close> (taken, as in the defaults, to be
  at most \<open>MIN_ON_MS\<close>, itself at most \<open>MAX_ON_MS\<close>) publishes nothing, leaves the relay
  on with its \<open>lastOnTs\<close>, and is logged as a \<open>RECOMMEND\<close> whose reason is
  \<open>no_action\<close> (\<open>min_on_not_elapsed\<close> when the reading is also at or above
  \<open>threshold_off\<close>), not a between-ON block reason.
\<close>

theorem redelivery_no_second_on:
  assumes parse: "safeParseJSON e1 m = Some (Object p)"
    and same: "JSON_parse e2 = JSON_parse e1" "Number_of_string e2 = Number_of_string e1"
    and db1: "\<not> rejects e1 FindDeviceState" "\<not> rejects e1 CreateDeviceState"
      "\<not> rejects e1 SaveDeviceState"
    and db2: "\<not> rejects e2 FindDeviceState"
    and first: "logged (snd (handleTelemetryMessage cfg e1 topic m w)) = Some v1" "action v1 = ''ON''"
    and w1: "w1 = fst (handleTelemetryMessage cfg e1 topic m w)"
    and soon: "Date_now e1 \<le> Date_now e2"
      "Date_now e2 - Date_now e1 < MIN_INTERVAL_BETWEEN_ON_MS cfg"
    and sane: "MIN_INTERVAL_BETWEEN_ON_MS cfg \<le> MIN_ON_MS cfg" "MIN_ON_MS cfg \<le> MAX_ON_MS cfg"
  shows "publish_calls (snd (handleTelemetryMessage cfg e2 topic m w1)) = []
       \<and> (\<exists>v2 x. logged (snd (handleTelemetryMessage cfg e2 topic m w1)) = Some v2
              \<and> telemetry_soilPct e2 p = Some x
              \<and> action v2 = ''RECOMMEND''
              \<and> reason v2 = (if x \<ge> of_int (threshold_off (cycle_thresholds e2 w1 p))
                              then ''min_on_not_elapsed'' else ''no_action'')
              \<and> \<not> between_on_blocked (reason v2))
       \<and> (\<exists>s'. deviceStates (fst (handleTelemetryMessage cfg e2 topic m w1)) (telemetry_deviceId p)
                  = Some s' \<and> relayState s' \<and> lastOnTs s' = Some (Date_now e1))"
proof -
  have parse2: "safeParseJSON e2 m = Some (Object p)"
    using parse unfolding safeParseJSON_def same(1) .
  obtain s1 where s1: "deviceStates w1 (telemetry_deviceId p) = Some s1" "relayState s1"
      "lastOnTs s1 = Some (Date_now e1)"
    using commit_ON(1)[OF parse db1 first] unfolding w1 by blast
  obtain x where x1: "telemetry_soilPct e1 p = Some x"
    using commit_ON(2)[OF parse db1 first] by blast
  have x: "telemetry_soilPct e2 p = Some x"
    using x1 unfolding telemetry_soilPct_def normalizeSoil_def same(2) .
  let ?st = "fst (loadState e2 p w1)"
  let ?w = "snd (loadState e2 p w1)"
  let ?d = "cycle_decision cfg e2 p ?st ?w"
  have h: "handleTelemetryMessage cfg e2 topic m w1 = runCycle cfg e2 p ?st ?w"
    by (rule handle_Object[OF parse2])
  have t: "Date_now e2 - Date_now e1 < MIN_ON_MS cfg" "Date_now e2 - Date_now e1 \<le> MAX_ON_MS cfg"
    using soon sane by linarith+
  have d: "?d = (if x \<ge> of_int (threshold_off (cycle_thresholds e2 w1 p))
            then recommend ''min_on_not_elapsed''
                   (MinOnLeft (MIN_ON_MS cfg - (Date_now e2 - Date_now e1)))
            else recommend ''no_action'' NoExtra)"
    by (rule redelivery_step[OF parse2 db2 s1 x t])
  have 1: "publish_calls (snd (handleTelemetryMessage cfg e2 topic m w1)) = []"
    unfolding h runCycle_calls d by (simp add: recommend_simps)
  obtain v2 where v2: "logged (snd (handleTelemetryMessage cfg e2 topic m w1)) = Some v2"
      "action v2 = dec_action ?d" "reason v2 = dec_reason ?d"
    using runCycle_logged[of cfg e2 p ?st ?w] unfolding h by blast
  have a: "action v2 = ''RECOMMEND''"
    unfolding v2(2) d by (simp add: recommend_simps)
  have r: "reason v2 = (if x \<ge> of_int (threshold_off (cycle_thresholds e2 w1 p))
                              then ''min_on_not_elapsed'' else ''no_action'')"
    unfolding v2(3) d by (simp add: recommend_simps)
  have nb: "\<not> between_on_blocked (reason v2)"
    unfolding r by (simp add: no_action_not_blocked)
  have 2: "\<exists>v2 x. logged (snd (handleTelemetryMessage cfg e2 topic m w1)) = Some v2
              \<and> telemetry_soilPct e2 p = Some x
              \<and> action v2 = ''RECOMMEND''
              \<and> reason v2 = (if x \<ge> of_int (threshold_off (cycle_thresholds e2 w1 p))
                              then ''min_on_not_elapsed'' else ''no_action'')
              \<and> \<not> between_on_blocked (reason v2)"
    using v2(1) x a r nb by blast
  have st: "?st = Some ((hydrate s1)\<lparr> lastTelemetry := p \<rparr>)"
    by (rule loadState_found[OF db2 s1(1)])
  obtain s2 where s2: "deviceStates ?w (telemetry_deviceId p) = Some s2"
      "relayState s2 = relayState s1" "lastOnTs s2 = lastOnTs s1"
    using loadState_keeps[OF s1(1)] by blast
  have da: "dec_action ?d = ''RECOMMEND''"
    unfolding d by (simp add: recommend_simps)
  have 3: "\<exists>s'. deviceStates (fst (handleTelemetryMessage cfg e2 topic m w1)) (telemetry_deviceId p)
                  = Some s' \<and> relayState s' \<and> lastOnTs s' = Some (Date_now e1)"
    using s2 s1(2,3) da unfolding h runCycle_deviceStates
    by (simp add: st persistState_def toStored_def hydrate_def)
  show ?thesis using 1 2 3 by blast
qed

theorem redelivery_no_second_on_witness:
  "publish_calls (snd second_delivery) = []
   \<and> (\<exists>v2 x. logged (snd second_delivery) = Some v2
          \<and> telemetry_soilPct (env_at 1010000 True) (reading_from ''A'' (Some 28)) = Some x
          \<and> action v2 = ''RECOMMEND''
          \<and> reason v2 =
              (if x \<ge> of_int (threshold_off (cycle_thresholds (env_at 1010000 True)
                                   (fst first_delivery) (reading_from ''A'' (Some 28))))
               then ''min_on_not_elapsed'' else ''no_action'')
          \<and> \<not> between_on_blocked (reason v2))
   \<and> (\<exists>s'. deviceStates (fst second_delivery) ''A'' = Some s' \<and> relayState s'
          \<and> lastOnTs s' = Some 1000000)"
proof -
  let ?e1 = "env_at 1000000 True"
  let ?e2 = "env_at 1010000 True"
  let ?p = "reading_from ''A'' (Some 28)"
  let ?m = "Parsed (Object ?p)"
  have parse: "safeParseJSON ?e1 ?m = Some (Object ?p)"
    by (rule parse_Parsed)
  have same: "JSON_parse ?e2 = JSON_parse ?e1" "Number_of_string ?e2 = Number_of_string ?e1"
    by (simp_all add: env_at_def)
  have db1: "\<not> rejects ?e1 FindDeviceState" "\<not> rejects ?e1 CreateDeviceState"
    "\<not> rejects ?e1 SaveDeviceState"
    by (simp_all add: env_at_simps)
  have db2: "\<not> rejects ?e2 FindDeviceState"
    by (simp add: env_at_simps)
  obtain v1 where first:
    "logged (snd (handleTelemetryMessage default_config ?e1 ''esp32/telemetry'' ?m no_devices)) = Some v1"
    "action v1 = ''ON''"
    using first_delivery_logged unfolding first_delivery_def by auto
  have w1: "fst first_delivery
              = fst (handleTelemetryMessage default_config ?e1 ''esp32/telemetry'' ?m no_devices)"
    by (simp add: first_delivery_def)
  have soon: "Date_now ?e1 \<le> Date_now ?e2"
    "Date_now ?e2 - Date_now ?e1 < MIN_INTERVAL_BETWEEN_ON_MS default_config"
    by (simp_all add: env_at_simps default_config_def)
  have sane: "MIN_INTERVAL_BETWEEN_ON_MS default_config \<le> MIN_ON_MS default_config"
    "MIN_ON_MS default_config \<le> MAX_ON_MS default_config"
    by (simp_all add: default_config_def)
  from redelivery_no_second_on[OF parse same db1 db2 first w1 soon sane]
  show ?thesis
    by (simp add: second_delivery_def reading_deviceId env_at_simps)
qed

text \<open>
  C6: in every ON evaluation (reading at or below \<open>threshold_on\<close>, relay off, debug flag
  unset) ON is allowed exactly when, for \<open>lastOffTs > lastOnTs\<close>,
  \<open>now - lastOffTs \<ge> MIN_INTERVAL_AFTER_OFF_MS\<close> and otherwise
  \<open>now - lastOnTs \<ge> MIN_INTERVAL_BETWEEN_ON_MS\<close>. When it is allowed the ON command is
  published; when it is not, nothing is published and the cycle logs a \<open>RECOMMEND\<close> with
  the block reason of the branch taken. The timestamps are the ones the cycle reads at
  lines 197-198 from the document in memory.
\<close>

theorem on_gate_rule:
  assumes soil: "telemetry_soilPct e p = Some x"
    and dry: "x \<le> of_int (threshold_on (cycle_thresholds e w p))"
    and off: "\<not> state_relayIsOn state"
    and nodebug: "\<not> DEBUG_ALLOW_REON cfg"
    and names: "now = Date_now e" "lastOn = state_lastOnTs state" "lastOff = state_lastOffTs state"
      "topic = zoneToRelayTopic (telemetry_deviceId p)"
    and rule: "allowed = (if lastOff > lastOn then now - lastOff \<ge> MIN_INTERVAL_AFTER_OFF_MS cfg
                          else now - lastOn \<ge> MIN_INTERVAL_BETWEEN_ON_MS cfg)"
  shows "fst (onGate cfg now lastOn lastOff) = allowed
       \<and> (allowed \<longrightarrow>
            publish_calls (snd (runCycle cfg e p state w))
              = snd (publishManyFormats cfg (mqtt_publish e) topic ''ON'')
            \<and> (\<exists>v. logged (snd (runCycle cfg e p state w)) = Some v
                   \<and> (if successes (fst (publishManyFormats cfg (mqtt_publish e) topic ''ON'')) \<noteq> []
                       then action v = ''ON'' \<and> reason v = ''soil_below_threshold_on''
                       else action v = ''RECOMMEND'' \<and> reason v = ''publish_failed_on'')))
       \<and> (\<not> allowed \<longrightarrow>
            publish_calls (snd (runCycle cfg e p state w)) = []
            \<and> (\<exists>v. logged (snd (runCycle cfg e p state w)) = Some v
                   \<and> action v = ''RECOMMEND''
                   \<and> reason v =
                       (if lastOff > lastOn
                        then ''blocked_after_off_wait '' @ show_int (now - lastOff) @ ''ms<''
                               @ show_int (MIN_INTERVAL_AFTER_OFF_MS cfg)
                        else ''blocked_by_min_between_on '' @ show_int (now - lastOn) @ ''ms<''
                               @ show_int (MIN_INTERVAL_BETWEEN_ON_MS cfg))))"
proof -
  have g: "fst (onGate cfg now lastOn lastOff) = allowed"
    unfolding rule by (rule onGate_fst)
  have d: "cycle_decision cfg e p state w =
            (if allowed
             then actuate cfg (mqtt_publish e) (telemetry_deviceId p) ''ON''
                    ''soil_below_threshold_on'' ''publish_failed_on''
             else recommend (snd (onGate cfg now lastOn lastOff)) NoExtra)"
    unfolding cycle_decision_def names(1-3)[symmetric]
    using decide_relay_off[OF off] dry nodebug g by (simp add: soil)
  have a: "allowed \<longrightarrow>
            publish_calls (snd (runCycle cfg e p state w))
              = snd (publishManyFormats cfg (mqtt_publish e) topic ''ON'')
            \<and> (\<exists>v. logged (snd (runCycle cfg e p state w)) = Some v
                   \<and> (if successes (fst (publishManyFormats cfg (mqtt_publish e) topic ''ON'')) \<noteq> []
                       then action v = ''ON'' \<and> reason v = ''soil_below_threshold_on''
                       else action v = ''RECOMMEND'' \<and> reason v = ''publish_failed_on''))"
    using runCycle_logged[of cfg e p state w]
    unfolding runCycle_calls d names(4)
    by (auto simp: actuate_calls actuate_action actuate_reason)
  have b: "\<not> allowed \<longrightarrow>
            publish_calls (snd (runCycle cfg e p state w)) = []
            \<and> (\<exists>v. logged (snd (runCycle cfg e p state w)) = Some v
                   \<and> action v = ''RECOMMEND''
                   \<and> reason v =
                       (if lastOff > lastOn
                        then ''blocked_after_off_wait '' @ show_int (now - lastOff) @ ''ms<''
                               @ show_int (MIN_INTERVAL_AFTER_OFF_MS cfg)
                        else ''blocked_by_min_between_on '' @ show_int (now - lastOn) @ ''ms<''
                               @ show_int (MIN_INTERVAL_BETWEEN_ON_MS cfg)))"
  proof
    assume na: "\<not> allowed"
    then have ng: "\<not> fst (onGate cfg now lastOn lastOff)" using g by simp
    show "publish_calls (snd (runCycle cfg e p state w)) = []
            \<and> (\<exists>v. logged (snd (runCycle cfg e p state w)) = Some v
                   \<and> action v = ''RECOMMEND''
                   \<and> reason v =
                       (if lastOff > lastOn
                        then ''blocked_after_off_wait '' @ show_int (now - lastOff) @ ''ms<''
                               @ show_int (MIN_INTERVAL_AFTER_OFF_MS cfg)
                        else ''blocked_by_min_between_on '' @ show_int (now - lastOn) @ ''ms<''
                               @ show_int (MIN_INTERVAL_BETWEEN_ON_MS cfg)))"
    proof -
      have dd: "cycle_decision cfg e p state w
                  = recommend (snd (onGate cfg now lastOn lastOff)) NoExtra"
        unfolding d using na by simp
      obtain v where v: "logged (snd (runCycle cfg e p state w)) = Some v"
          "action v = dec_action (cycle_decision cfg e p state w)"
          "reason v = dec_reason (cycle_decision cfg e p state w)"
        using runCycle_logged[of cfg e p state w] by blast
      have 1: "publish_calls (snd (runCycle cfg e p state w)) = []"
        unfolding runCycle_calls dd by (simp add: recommend_simps)
      have 2: "action v = ''RECOMMEND''"
        unfolding v(2) dd by (simp add: recommend_simps)
      have 3: "reason v = (if lastOff > lastOn
                        then ''blocked_after_off_wait '' @ show_int (now - lastOff) @ ''ms<''
                               @ show_int (MIN_INTERVAL_AFTER_OFF_MS cfg)
                        else ''blocked_by_min_between_on '' @ show_int (now - lastOn) @ ''ms<''
                               @ show_int (MIN_INTERVAL_BETWEEN_ON_MS cfg))"
        unfolding v(3) dd recommend_simps by (rule onGate_snd_blocked[OF ng])
      show ?thesis using 1 2 3 v(1) by blast
    qed
  qed
  show ?thesis using g a b by blast
qed

theorem on_gate_rule_witness:
  "\<not> fst (onGate default_config 7000 1000 5000)
   \<and> publish_calls (snd (runCycle default_config (env_at 7000 True) (reading_from ''A'' (Some 28))
        (Some (document ''A'' False (Some 1000) (Some 5000) (reading_from ''A'' (Some 28))))
        no_devices)) = []
   \<and> (\<exists>v. logged (snd (runCycle default_config (env_at 7000 True) (reading_from ''A'' (Some 28))
              (Some (document ''A'' False (Some 1000) (Some 5000) (reading_from ''A'' (Some 28))))
              no_devices)) = Some v
          \<and> action v = ''RECOMMEND'' \<and> reason v = ''blocked_after_off_wait 2000ms<5000'')"
proof -
  let ?e = "env_at 7000 True"
  let ?p = "reading_from ''A'' (Some 28)"
  let ?st = "Some (document ''A'' False (Some 1000) (Some 5000) ?p)"
  have soil: "telemetry_soilPct ?e ?p = Some 28"
    by (rule reading_soilPct)
  have dry: "(28::real) \<le> of_int (threshold_on (cycle_thresholds ?e no_devices ?p))"
    by (simp add: scenario_thresholds no_devices_simps)
  have off: "\<not> state_relayIsOn ?st"
    by (simp add: state_relayIsOn_def document_def)
  have nodebug: "\<not> DEBUG_ALLOW_REON default_config"
    by (simp add: default_config_def)
  have names: "7000 = Date_now ?e" "1000 = state_lastOnTs ?st" "5000 = state_lastOffTs ?st"
    "''esp32/relay1'' = zoneToRelayTopic (telemetry_deviceId ?p)"
    by (simp_all add: env_at_simps state_lastOnTs_def state_lastOffTs_def document_def nullish_def
        reading_deviceId zoneToRelayTopic_def)
  have rule: "False = (if (5000::int) > 1000 then 7000 - 5000 \<ge> MIN_INTERVAL_AFTER_OFF_MS default_config
                       else 7000 - 1000 \<ge> MIN_INTERVAL_BETWEEN_ON_MS default_config)"
    by (simp add: default_config_def)
  from on_gate_rule[OF soil dry off nodebug names rule]
  show ?thesis
    by (simp add: default_config_def show_int_def)
qed

text \<open>
  C7: for a device whose record says it was turned on at \<open>t0\<close>, a telemetry message that
  arrives before \<open>t0 + MIN_ON_MS\<close> never publishes an OFF encoding and leaves the record
  with \<open>relayState = true\<close> and \<open>lastOnTs = t0\<close>, whatever it reads; when the record
  is found the cycle publishes nothing and logs a \<open>RECOMMEND\<close>, and for a reading at or
  above \<open>threshold_off\<close> the reason is \<open>min_on_not_elapsed\<close> with the remaining wait
  \<open>MIN_ON_MS - (now - t0)\<close>. The configuration is one in which the minimum on-time does
  not exceed the watchdog limit \<open>MAX_ON_MS\<close>, as in the defaults (one minute against
  four hours).
\<close>

theorem min_on_enforced:
  assumes parse: "safeParseJSON e m = Some (Object p)"
    and stored: "deviceStates w (telemetry_deviceId p) = Some s"
    and on: "relayState s"
    and t0: "lastOnTs s = Some t0"
    and early: "Date_now e < t0 + MIN_ON_MS cfg"
    and sane: "MIN_ON_MS cfg \<le> MAX_ON_MS cfg"
  shows "(\<exists>s'. deviceStates (fst (handleTelemetryMessage cfg e topic m w)) (telemetry_deviceId p)
                  = Some s' \<and> relayState s' \<and> lastOnTs s' = Some t0)
       \<and> (\<forall>c \<in> set (publish_calls (snd (handleTelemetryMessage cfg e topic m w))).
             snd c \<notin> OFF_payloads)
       \<and> (\<not> rejects e FindDeviceState \<longrightarrow>
             publish_calls (snd (handleTelemetryMessage cfg e topic m w)) = []
             \<and> (\<exists>v. logged (snd (handleTelemetryMessage cfg e topic m w)) = Some v
                    \<and> action v = ''RECOMMEND''
                    \<and> (\<forall>x. telemetry_soilPct e p = Some x
                              \<and> x \<ge> of_int (threshold_off (cycle_thresholds e w p)) \<longrightarrow>
                            reason v = ''min_on_not_elapsed''
                            \<and> extra v = MinOnLeft (MIN_ON_MS cfg - (Date_now e - t0)))))"
proof -
  let ?st = "fst (loadState e p w)"
  let ?w1 = "snd (loadState e p w)"
  let ?d = "cycle_decision cfg e p ?st ?w1"
  have h: "handleTelemetryMessage cfg e topic m w = runCycle cfg e p ?st ?w1"
    by (rule handle_Object[OF parse])
  have soon: "Date_now e - t0 < MIN_ON_MS cfg"
    using early by linarith
  obtain v where v: "logged (snd (handleTelemetryMessage cfg e topic m w)) = Some v"
      "action v = dec_action ?d" "reason v = dec_reason ?d" "extra v = dec_extra ?d"
    using runCycle_logged[of cfg e p ?st ?w1] unfolding h by blast
  obtain s1 where s1: "deviceStates ?w1 (telemetry_deviceId p) = Some s1"
      "relayState s1 = relayState s" "lastOnTs s1 = lastOnTs s"
    using loadState_keeps[OF stored] by blast
  show ?thesis
  proof (cases "rejects e FindDeviceState")
    case True
    have ld: "?st = None" "?w1 = w"
      by (simp_all add: loadState_rejected[OF True])
    have 1: "\<exists>s'. deviceStates (fst (handleTelemetryMessage cfg e topic m w)) (telemetry_deviceId p)
                  = Some s' \<and> relayState s' \<and> lastOnTs s' = Some t0"
      unfolding h runCycle_deviceStates ld using stored on t0 by simp
    have off: "\<not> state_relayIsOn ?st"
      by (simp add: ld state_relayIsOn_def)
    have 2: "\<forall>c \<in> set (publish_calls (snd (handleTelemetryMessage cfg e topic m w))).
             snd c \<notin> OFF_payloads"
      unfolding h runCycle_calls cycle_decision_def
      using decide_relay_off_no_OFF[OF off] by blast
    show ?thesis using 1 2 True by blast
  next
    case False
    have st: "?st = Some ((hydrate s)\<lparr> lastTelemetry := p \<rparr>)"
      by (rule loadState_found[OF False stored])
    have r: "state_relayIsOn ?st" and l: "state_lastOnTs ?st = t0"
      using on t0 by (simp_all add: st state_relayIsOn_def state_lastOnTs_def hydrate_def nullish_def)
    have d: "?d = decide cfg (mqtt_publish e) (Date_now e) (telemetry_deviceId p)
                    (telemetry_soilPct e p) (threshold_on (cycle_thresholds e w p))
                    (threshold_off (cycle_thresholds e w p)) t0 0 True"
      unfolding cycle_decision_loaded l using r by simp
    have da: "dec_action ?d = ''RECOMMEND''" and dc: "dec_calls ?d = []"
      unfolding d using decide_min_on(1,2)[OF TrueI soon sane] by simp_all
    have 1: "\<exists>s'. deviceStates (fst (handleTelemetryMessage cfg e topic m w)) (telemetry_deviceId p)
                  = Some s' \<and> relayState s' \<and> lastOnTs s' = Some t0"
      using s1 on t0 da unfolding h runCycle_deviceStates
      by (simp add: st persistState_def toStored_def hydrate_def)
    have 2: "publish_calls (snd (handleTelemetryMessage cfg e topic m w)) = []"
      unfolding h runCycle_calls dc ..
    have 3: "\<forall>x. telemetry_soilPct e p = Some x
                  \<and> x \<ge> of_int (threshold_off (cycle_thresholds e w p)) \<longrightarrow>
                reason v = ''min_on_not_elapsed''
                \<and> extra v = MinOnLeft (MIN_ON_MS cfg - (Date_now e - t0))"
    proof (intro allI impI, elim conjE)
      fix x
      assume x: "telemetry_soilPct e p = Some x"
        and wet: "x \<ge> of_int (threshold_off (cycle_thresholds e w p))"
      have "?d = recommend ''min_on_not_elapsed'' (MinOnLeft (MIN_ON_MS cfg - (Date_now e - t0)))"
        unfolding d by (rule decide_min_on(3)[OF TrueI soon sane x wet])
      then show "reason v = ''min_on_not_elapsed''
                \<and> extra v = MinOnLeft (MIN_ON_MS cfg - (Date_now e - t0))"
        using v(3,4) by (simp add: recommend_simps)
    qed
    have 4: "action v = ''RECOMMEND''"
      using v(2) da by simp
    show ?thesis using 1 2 3 4 v(1) by auto
  qed
qed

theorem min_on_enforced_witness:
  "publish_calls (snd early_wet_delivery) = []
   \<and> (\<exists>v. logged (snd early_wet_delivery) = Some v
          \<and> action v = ''RECOMMEND'' \<and> reason v = ''min_on_not_elapsed''
          \<and> extra v = MinOnLeft 59000)
   \<and> (\<exists>s'. deviceStates (fst early_wet_delivery) ''A'' = Some s'
          \<and> relayState s' \<and> lastOnTs s' = Some 1000000)"
proof -
  let ?e = "env_at 1001000 True"
  let ?p = "reading_from ''A'' (Some 50)"
  let ?s = "stored_device ''A'' True (Some 1000000) (reading_from ''A'' (Some 28))"
  let ?w = "one_device ?s"
  have parse: "safeParseJSON ?e (Parsed (Object ?p)) = Some (Object ?p)"
    by (rule parse_Parsed)
  have db: "\<not> rejects ?e FindDeviceState"
    by (simp add: env_at_simps)
  have stored: "deviceStates ?w (telemetry_deviceId ?p) = Some ?s"
    by (simp add: one_device_simps reading_deviceId)
  have on: "relayState ?s" and t0: "lastOnTs ?s = Some 1000000"
    by (simp_all add: stored_device_def)
  have soil: "telemetry_soilPct ?e ?p = Some 50"
    by (rule reading_soilPct)
  have wet: "(50::real) \<ge> of_int (threshold_off (cycle_thresholds ?e ?w ?p))"
    by (simp add: scenario_thresholds one_device_simps)
  have early: "Date_now ?e < 1000000 + MIN_ON_MS default_config"
    by (simp add: env_at_simps default_config_def)
  have sane: "MIN_ON_MS default_config \<le> MAX_ON_MS default_config"
    by (simp add: default_config_def)
  have left: "MIN_ON_MS default_config - (Date_now ?e - 1000000) = 59000"
    by (simp add: env_at_simps default_config_def)
  from min_on_enforced[OF parse stored on t0 early sane, of "''esp32/telemetry''"] db soil wet
  show ?thesis
    unfolding early_wet_delivery_def left reading_deviceId
    by blast
qed

text \<open>
  C8, as stated, fails on the code. The clamp of line 57 lets the lower bound win, so a
  profile whose wilting point is less than six points below its field capacity gets a
  \<open>threshold_on\<close> above \<open>fieldCapacityPct - 3\<close> (field capacity 12, wilting point 10:
  13 against 9); with wilting point 98 and field capacity 100 the service returns
  \<open>threshold_on = 101\<close> and \<open>threshold_off = 100\<close>; and rounding takes
  \<open>threshold_on\<close> below a fractional \<open>wiltingPointPct + 3\<close> (wilting point 10.4:
  13 against 13.4). All three profiles are valid.
\<close>

theorem computeThreshold_band_counterexample:
  "\<not> (validCropProfile (profile_of 12 10 5 (3 / 4)) \<longrightarrow>
        real_of_int (threshold_on
          (computeThreshold no_crops reading None (profile_of 12 10 5 (3 / 4)))) \<le> 12 - 3)
   \<and> \<not> (validCropProfile (profile_of 100 98 5 (3 / 4)) \<longrightarrow>
        threshold_on (computeThreshold no_crops reading None (profile_of 100 98 5 (3 / 4)))
          \<le> threshold_off
               (computeThreshold no_crops reading None (profile_of 100 98 5 (3 / 4))))
   \<and> \<not> (validCropProfile (profile_of 40 (52 / 5) 5 (1 / 4)) \<longrightarrow>
        52 / 5 + 3 \<le> real_of_int (threshold_on
          (computeThreshold no_crops reading None (profile_of 40 (52 / 5) 5 (1 / 4)))))"
  by (simp add: narrow_threshold_on high_threshold_on high_threshold_off fractional_threshold_on)
     (simp add: validCropProfile_def profile_of_def nullish_def)

text \<open>
  C8, amended: for every valid crop profile whose wilting point and field capacity are
  whole numbers at least six points apart, and for all telemetry and forecast inputs,
  \<open>computeThreshold\<close> (the service, on the profile it resolves, and the dashboard's copy)
  returns integers with \<open>threshold_on \<le> threshold_off\<close>, both within
  \<open>[wiltingPointPct + 3, 100]\<close>, and \<open>threshold_on \<le> fieldCapacityPct - 3\<close>.
\<close>

theorem computeThreshold_band:
  assumes valid: "validCropProfile p"
    and whole: "nullish (wiltingPointPct p) 10 \<in> \<int>" "nullish (fieldCapacityPct p) 40 \<in> \<int>"
    and room: "nullish (wiltingPointPct p) 10 + 6 \<le> nullish (fieldCapacityPct p) 40"
    and r: "r = computeThreshold findOne tel fo cp \<and> p = mergeProfile findOne cp
            \<or> r = computeThreshold_frontend tel fo p"
  shows "threshold_on r \<le> threshold_off r
       \<and> nullish (wiltingPointPct p) 10 + 3 \<le> of_int (threshold_on r)
       \<and> threshold_on r \<le> 100
       \<and> nullish (wiltingPointPct p) 10 + 3 \<le> of_int (threshold_off r)
       \<and> threshold_off r \<le> 100
       \<and> of_int (threshold_on r) \<le> nullish (fieldCapacityPct p) 40 - 3"
proof -
  define wp where "wp = nullish (wiltingPointPct p) 10"
  define fc where "fc = nullish (fieldCapacityPct p) 40"
  define h where "h = nullish (hysteresisPct p) 5"
  obtain a where a: "wp = of_int a"
    using whole(1) unfolding wp_def by (auto simp: Ints_def)
  obtain b where b: "fc = of_int b"
    using whole(2) unfolding fc_def by (auto simp: Ints_def)
  have v: "fc \<le> 100" "0 \<le> h" "wp + 6 \<le> fc"
    using valid room unfolding validCropProfile_def wp_def fc_def h_def by auto
  define c where "c = max (wp + 3) (min (fc - 3) (raw_threshold_on tel fo p))"
  have on: "threshold_on r = Math_round c"
    using r unfolding c_def wp_def fc_def
    by (auto simp: threshold_on_eq frontend_threshold_on_eq clamp_def)
  have cb: "of_int (a + 3) \<le> c" "c \<le> of_int (b - 3)"
    using v unfolding c_def a b by auto
  have onb: "a + 3 \<le> threshold_on r" "threshold_on r \<le> b - 3"
    using Math_round_bounds[OF cb] on by auto
  have b100: "b \<le> 100"
    using v(1) unfolding b by linarith
  have off: "threshold_off r = Math_round (min 100 (of_int (threshold_on r) + h))
           \<or> threshold_off r =
               Math_round (max (of_int (threshold_on r)) (min 100 (of_int (threshold_on r) + h)))"
    using r unfolding h_def
    by (auto simp: threshold_off_eq frontend_threshold_off_eq clamp_def)
  have lo: "of_int (threshold_on r) \<le> min 100 (of_int (threshold_on r) + h)"
    using onb(2) b100 v(2) by auto
  have hi: "min 100 (of_int (threshold_on r) + h) \<le> of_int 100"
    by simp
  have offb: "threshold_on r \<le> threshold_off r \<and> threshold_off r \<le> 100"
  proof -
    have "max (of_int (threshold_on r)) (min 100 (of_int (threshold_on r) + h))
          = min 100 (of_int (threshold_on r) + h)"
      using lo by (simp add: max_def)
    with off have "threshold_off r = Math_round (min 100 (of_int (threshold_on r) + h))"
      by auto
    then show ?thesis
      using Math_round_bounds[OF lo hi] by simp
  qed
  have r1: "wp + 3 \<le> of_int (threshold_on r)"
    using onb(1) unfolding a by linarith
  have r2: "wp + 3 \<le> of_int (threshold_off r)"
    using onb(1) offb unfolding a by linarith
  have r3: "of_int (threshold_on r) \<le> fc - 3"
    using onb(2) unfolding b by linarith
  have r4: "threshold_on r \<le> 100"
    using onb(2) b100 by linarith
  show ?thesis
    using r1 r2 r3 r4 offb unfolding wp_def fc_def by blast
qed

theorem computeThreshold_band_witness:
  "validCropProfile (profile_of 40 10 5 (3 / 4))
   \<and> nullish (wiltingPointPct (profile_of 40 10 5 (3 / 4))) 10 \<in> \<int>
   \<and> nullish (fieldCapacityPct (profile_of 40 10 5 (3 / 4))) 40 \<in> \<int>
   \<and> nullish (wiltingPointPct (profile_of 40 10 5 (3 / 4))) 10 + 6
       \<le> nullish (fieldCapacityPct (profile_of 40 10 5 (3 / 4))) 40
   \<and> threshold_on (computeThreshold no_crops reading None (profile_of 40 10 5 (3 / 4)))
       \<le> threshold_off (computeThreshold no_crops reading None (profile_of 40 10 5 (3 / 4)))
   \<and> threshold_off (computeThreshold no_crops reading None (profile_of 40 10 5 (3 / 4))) \<le> 100
   \<and> of_int (threshold_on (computeThreshold no_crops reading None (profile_of 40 10 5 (3 / 4))))
       \<le> nullish (fieldCapacityPct (profile_of 40 10 5 (3 / 4))) 40 - 3
   \<and> nullish (wiltingPointPct (profile_of 40 10 5 (3 / 4))) 10 + 3
       \<le> of_int (threshold_on
            (computeThreshold no_crops reading None (profile_of 40 10 5 (3 / 4))))"
proof -
  let ?p = "profile_of 40 10 5 (3 / 4)"
  let ?r = "computeThreshold no_crops reading None ?p"
  have valid: "validCropProfile ?p"
    by (simp add: validCropProfile_def profile_of_def nullish_def)
  have whole: "nullish (wiltingPointPct ?p) 10 \<in> \<int>" "nullish (fieldCapacityPct ?p) 40 \<in> \<int>"
    by (simp_all add: profile_of_def nullish_def)
  have room: "nullish (wiltingPointPct ?p) 10 + 6 \<le> nullish (fieldCapacityPct ?p) 40"
    by (simp add: profile_of_def nullish_def)
  have r: "?r = computeThreshold no_crops reading None ?p \<and> ?p = mergeProfile no_crops ?p
           \<or> ?r = computeThreshold_frontend reading None ?p"
    by (simp add: mergeProfile_def profile_of_def truthy_str_def truthy_num_def)
  from computeThreshold_band[OF valid whole room r] valid whole room show ?thesis
    by blast
qed

text \<open>
  C9: with the crop profile, the temperature and every other input fixed, a larger
  forecast rain amount \<open>rain24\<close> never gives a larger \<open>threshold_on\<close>.
\<close>

theorem threshold_on_antimono_rain24:
  assumes "forecast_temp fo1 = forecast_temp fo2" "forecast_rain24 fo1 \<le> forecast_rain24 fo2"
  shows "threshold_on (computeThreshold findOne tel fo2 cp)
       \<le> threshold_on (computeThreshold findOne tel fo1 cp)"
  unfolding threshold_on_eq
  by (intro Math_round_mono max.mono min.mono order_refl raw_threshold_on_antimono assms)

theorem threshold_on_antimono_rain24_witness:
  "forecast_temp (rain 0) = forecast_temp (rain 5)
   \<and> forecast_rain24 (rain 0) \<le> forecast_rain24 (rain 5)
   \<and> threshold_on (computeThreshold no_crops reading (rain 5) (profile_of 40 10 5 (3 / 4)))
     \<le> threshold_on (computeThreshold no_crops reading (rain 0) (profile_of 40 10 5 (3 / 4)))"
proof -
  have t: "forecast_temp (rain 0) = forecast_temp (rain 5)"
    by (simp add: forecast_temp_def rain_def)
  have r: "forecast_rain24 (rain 0) \<le> forecast_rain24 (rain 5)"
    by (simp add: forecast_rain24_def rain_def)
  from threshold_on_antimono_rain24[OF t r] t r show ?thesis
    by blast
qed

text \<open>
  C10: with \<open>DEBUG_ALLOW_REON\<close> unset, a cycle that logs an ON or publishes an ON payload
  has a relay that was off, a reading at or below \<open>threshold_on\<close> and an open interval
  gate (\<open>allowOn\<close>). With the flag set, every reading at or below \<open>threshold_on\<close> on a
  device whose relay is off publishes the ON command whatever the timestamps are, and as
  soon as one encoding goes out the cycle logs \<open>ON\<close> with reason \<open>debug_force_on\<close> and
  stores \<open>relayState = true\<close> with \<open>lastOnTs = now\<close>.
\<close>

theorem debug_flag:
  assumes parse: "safeParseJSON e m = Some (Object p)"
    and names: "st = fst (loadState e p w)"
      "fx = snd (handleTelemetryMessage cfg e topic m w)"
      "w' = fst (handleTelemetryMessage cfg e topic m w)"
      "t_on = threshold_on (cycle_thresholds e w p)"
      "on_cmd = publishManyFormats cfg (mqtt_publish e)
                  (zoneToRelayTopic (telemetry_deviceId p)) ''ON''"
  shows "(\<not> DEBUG_ALLOW_REON cfg \<longrightarrow>
            (\<exists>v. logged fx = Some v \<and> action v = ''ON'')
              \<or> (\<exists>c \<in> set (publish_calls fx). snd c \<in> ON_payloads) \<longrightarrow>
            fst (onGate cfg (Date_now e) (state_lastOnTs st) (state_lastOffTs st))
            \<and> \<not> state_relayIsOn st
            \<and> (\<exists>x. telemetry_soilPct e p = Some x \<and> x \<le> of_int t_on))
       \<and> (DEBUG_ALLOW_REON cfg \<longrightarrow>
            (\<forall>x. telemetry_soilPct e p = Some x \<and> x \<le> of_int t_on \<and> \<not> state_relayIsOn st \<longrightarrow>
               publish_calls fx = snd on_cmd
               \<and> (successes (fst on_cmd) \<noteq> [] \<longrightarrow>
                    (\<exists>v. logged fx = Some v \<and> action v = ''ON'' \<and> reason v = ''debug_force_on'')
                    \<and> (\<forall>d. st = Some d \<and> \<not> rejects e SaveDeviceState \<longrightarrow>
                          (\<exists>s'. deviceStates w' (telemetry_deviceId p) = Some s'
                                 \<and> relayState s' \<and> lastOnTs s' = Some (Date_now e))))))"
proof -
  let ?w1 = "snd (loadState e p w)"
  let ?d = "cycle_decision cfg e p st ?w1"
  have h: "handleTelemetryMessage cfg e topic m w = runCycle cfg e p st ?w1"
    unfolding names(1) by (rule handle_Object[OF parse])
  have thr: "cycle_thresholds e ?w1 p = cycle_thresholds e w p"
    by (rule cycle_thresholds_cong[OF loadState_cropProfiles])
  obtain v where v: "logged fx = Some v" "action v = dec_action ?d" "reason v = dec_reason ?d"
    using runCycle_logged[of cfg e p st ?w1] unfolding names(2) h by blast
  have calls: "publish_calls fx = dec_calls ?d"
    unfolding names(2) h by (rule runCycle_calls)
  have d: "?d = decide cfg (mqtt_publish e) (Date_now e) (telemetry_deviceId p)
                  (telemetry_soilPct e p) t_on (threshold_off (cycle_thresholds e w p))
                  (state_lastOnTs st) (state_lastOffTs st) (state_relayIsOn st)"
    unfolding cycle_decision_def thr names(4) ..
  have 1: "\<not> DEBUG_ALLOW_REON cfg \<longrightarrow>
            (\<exists>v. logged fx = Some v \<and> action v = ''ON'')
              \<or> (\<exists>c \<in> set (publish_calls fx). snd c \<in> ON_payloads) \<longrightarrow>
            fst (onGate cfg (Date_now e) (state_lastOnTs st) (state_lastOffTs st))
            \<and> \<not> state_relayIsOn st
            \<and> (\<exists>x. telemetry_soilPct e p = Some x \<and> x \<le> of_int t_on)"
  proof (intro impI)
    assume nd: "\<not> DEBUG_ALLOW_REON cfg"
    assume "(\<exists>v. logged fx = Some v \<and> action v = ''ON'')
              \<or> (\<exists>c \<in> set (publish_calls fx). snd c \<in> ON_payloads)"
    then have on: "dec_action ?d = ''ON'' \<or> (\<exists>c \<in> set (dec_calls ?d). snd c \<in> ON_payloads)"
      using v calls by auto
    show "fst (onGate cfg (Date_now e) (state_lastOnTs st) (state_lastOffTs st))
            \<and> \<not> state_relayIsOn st
            \<and> (\<exists>x. telemetry_soilPct e p = Some x \<and> x \<le> of_int t_on)"
      using decide_ON_gate[OF on[unfolded d] nd] decide_ON_relay_off[OF on[unfolded d]]
        decide_ON_dry[OF on[unfolded d]] by blast
  qed
  have 2: "DEBUG_ALLOW_REON cfg \<longrightarrow>
            (\<forall>x. telemetry_soilPct e p = Some x \<and> x \<le> of_int t_on \<and> \<not> state_relayIsOn st \<longrightarrow>
               publish_calls fx = snd on_cmd
               \<and> (successes (fst on_cmd) \<noteq> [] \<longrightarrow>
                    (\<exists>v. logged fx = Some v \<and> action v = ''ON'' \<and> reason v = ''debug_force_on'')
                    \<and> (\<forall>d. st = Some d \<and> \<not> rejects e SaveDeviceState \<longrightarrow>
                          (\<exists>s'. deviceStates w' (telemetry_deviceId p) = Some s'
                                 \<and> relayState s' \<and> lastOnTs s' = Some (Date_now e)))))"
  proof (intro impI allI, elim conjE)
    fix x
    assume dbg: "DEBUG_ALLOW_REON cfg" and soil: "telemetry_soilPct e p = Some x"
      and dry: "x \<le> of_int t_on" and off: "\<not> state_relayIsOn st"
    have dd: "?d = actuate cfg (mqtt_publish e) (telemetry_deviceId p) ''ON''
                     ''debug_force_on'' ''debug_publish_failed_on''"
      unfolding d by (rule decide_debug[OF dbg off soil dry])
    have a: "publish_calls fx = snd on_cmd"
      unfolding calls dd names(5) by (rule actuate_calls)
    have b: "successes (fst on_cmd) \<noteq> [] \<longrightarrow>
                    (\<exists>v. logged fx = Some v \<and> action v = ''ON'' \<and> reason v = ''debug_force_on'')
                    \<and> (\<forall>d. st = Some d \<and> \<not> rejects e SaveDeviceState \<longrightarrow>
                          (\<exists>s'. deviceStates w' (telemetry_deviceId p) = Some s'
                                 \<and> relayState s' \<and> lastOnTs s' = Some (Date_now e)))"
    proof
      assume ok: "successes (fst on_cmd) \<noteq> []"
      have act: "dec_action ?d = ''ON''" "dec_reason ?d = ''debug_force_on''"
        unfolding dd using ok[unfolded names(5)] by (simp_all add: actuate_action actuate_reason)
      have c: "\<exists>v. logged fx = Some v \<and> action v = ''ON'' \<and> reason v = ''debug_force_on''"
        using v act by simp
      have s: "\<forall>d. st = Some d \<and> \<not> rejects e SaveDeviceState \<longrightarrow>
                          (\<exists>s'. deviceStates w' (telemetry_deviceId p) = Some s'
                                 \<and> relayState s' \<and> lastOnTs s' = Some (Date_now e))"
        unfolding names(3) h runCycle_deviceStates act
        by (auto simp: toStored_def persistState_ON)
      show "(\<exists>v. logged fx = Some v \<and> action v = ''ON'' \<and> reason v = ''debug_force_on'')
                    \<and> (\<forall>d. st = Some d \<and> \<not> rejects e SaveDeviceState \<longrightarrow>
                          (\<exists>s'. deviceStates w' (telemetry_deviceId p) = Some s'
                                 \<and> relayState s' \<and> lastOnTs s' = Some (Date_now e)))"
        using c s by blast
    qed
    show "publish_calls fx = snd on_cmd
               \<and> (successes (fst on_cmd) \<noteq> [] \<longrightarrow>
                    (\<exists>v. logged fx = Some v \<and> action v = ''ON'' \<and> reason v = ''debug_force_on'')
                    \<and> (\<forall>d. st = Some d \<and> \<not> rejects e SaveDeviceState \<longrightarrow>
                          (\<exists>s'. deviceStates w' (telemetry_deviceId p) = Some s'
                                 \<and> relayState s' \<and> lastOnTs s' = Some (Date_now e))))"
      using a b by blast
  qed
  show ?thesis using 1 2 by blast
qed

theorem debug_flag_witness:
  "\<not> fst (onGate debug_config 1000 0 0)
   \<and> publish_calls (snd debug_delivery)
       = [(''esp32/relay1'', ''ON''), (''esp32/relay1'', ''1''),
          (''esp32/relay1'', JSON_stringify_cmd ''ON'')]
   \<and> (\<exists>v. logged (snd debug_delivery) = Some v \<and> action v = ''ON''
          \<and> reason v = ''debug_force_on'')
   \<and> (\<exists>s'. deviceStates (fst debug_delivery) ''A'' = Some s' \<and> relayState s'
          \<and> lastOnTs s' = Some 1000)
   \<and> fst (onGate default_config 1000000 0 0)"
proof -
  let ?p = "reading_from ''A'' (Some 28)"
  let ?m = "Parsed (Object ?p)"
  let ?e = "env_at 1000 True"
  let ?e1 = "env_at 1000000 True"
  have parse: "safeParseJSON ?e ?m = Some (Object ?p)" "safeParseJSON ?e1 ?m = Some (Object ?p)"
    by (rule parse_Parsed)+
  have blocked: "\<not> fst (onGate debug_config 1000 0 0)"
    by (simp add: onGate_fst debug_config_def default_config_def)
  have dbg: "DEBUG_ALLOW_REON debug_config" "\<not> DEBUG_ALLOW_REON default_config"
    by (simp_all add: debug_config_def default_config_def)
  have soil: "telemetry_soilPct ?e ?p = Some 28"
    by (rule reading_soilPct)
  have dry: "(28::real) \<le> of_int (threshold_on (cycle_thresholds ?e no_devices ?p))"
    by (simp add: scenario_thresholds no_devices_simps)
  have off: "\<not> state_relayIsOn (fst (loadState ?e ?p no_devices))"
    by (simp add: scenario_fresh state_relayIsOn_def hydrate_def)
  have ok: "successes (fst (publishManyFormats debug_config (mqtt_publish ?e)
              (zoneToRelayTopic (telemetry_deviceId ?p)) ''ON'')) \<noteq> []"
    by (simp add: env_at_simps publish_up retry_default)
  have save: "\<not> rejects ?e SaveDeviceState"
    by (simp add: env_at_simps)
  have first: "\<exists>v. logged (snd (handleTelemetryMessage default_config ?e1 ''esp32/telemetry''
                                  ?m no_devices)) = Some v \<and> action v = ''ON''"
    using first_delivery_logged unfolding first_delivery_def by auto
  note two = debug_flag[OF parse(1) refl refl refl refl refl,
      of debug_config "''esp32/telemetry''" no_devices]
  note one = debug_flag[OF parse(2) refl refl refl refl refl,
      of default_config "''esp32/telemetry''" no_devices]
  have a: "publish_calls (snd debug_delivery)
             = snd (publishManyFormats debug_config (mqtt_publish ?e)
                      (zoneToRelayTopic (telemetry_deviceId ?p)) ''ON'')"
    and b: "\<exists>v. logged (snd debug_delivery) = Some v \<and> action v = ''ON''
                \<and> reason v = ''debug_force_on''"
    and c: "\<exists>s'. deviceStates (fst debug_delivery) (telemetry_deviceId ?p) = Some s'
                \<and> relayState s' \<and> lastOnTs s' = Some (Date_now ?e)"
    using two dbg(1) soil dry off ok save scenario_fresh[of 1000 True "Some 28"]
    unfolding debug_delivery_def by blast+
  have d: "fst (onGate default_config (Date_now ?e1)
                 (state_lastOnTs (fst (loadState ?e1 ?p no_devices)))
                 (state_lastOffTs (fst (loadState ?e1 ?p no_devices))))"
    using one dbg(2) first by blast
  show ?thesis
    using blocked a b c d
    by (simp add: env_at_simps publish_up retry_default reading_deviceId zoneToRelayTopic_def
        scenario_fresh state_lastOnTs_def state_lastOffTs_def hydrate_def nullish_def)
qed

end
